theory Spec2Isabelle
  imports Main
begin

section \<open>Python values\<close>

text \<open>
  The script \<^verbatim>\<open>scripts/etl.py\<close> moves untyped Python values around: what
  \<^verbatim>\<open>json.loads\<close> returns, the cells of the rows it builds as dictionaries, and the
  numbers it computes. They are modelled by one datatype. A dictionary is an association
  list in insertion order with one entry per key.

  A \<^verbatim>\<open>str\<close> is a \<^typ>\<open>string\<close>; a \<^typ>\<open>char\<close> stands for the code point of the
  same number, so the strings of the model are the Python strings over U+0000 to U+00FF.

  A finite \<^verbatim>\<open>float\<close> is the dyadic number \<open>m * 2 ^ e\<close>, written \<open>Finite m e\<close> with
  \<open>m\<close> odd or \<open>m = e = 0\<close>, so that equal floats are equal terms (the sign of zero is not
  kept).
\<close>

datatype pyfloat = Finite int int | PosInf | NegInf | NaN

datatype py =
    PNone
  | PBool bool
  | PInt int
  | PFloat pyfloat
  | PStr string
  | PList "py list"
  | PDict "(string \<times> py) list"

type_synonym pydict = "(string \<times> py) list"

text \<open>Truth value testing, as \<^verbatim>\<open>or\<close> and \<^verbatim>\<open>if\<close> apply it.\<close>

fun truthy :: "py \<Rightarrow> bool" where
  "truthy PNone = False"
| "truthy (PBool b) = b"
| "truthy (PInt n) = (n \<noteq> 0)"
| "truthy (PFloat x) = (x \<noteq> Finite 0 0)"
| "truthy (PStr s) = (s \<noteq> [])"
| "truthy (PList xs) = (xs \<noteq> [])"
| "truthy (PDict d) = (d \<noteq> [])"

text \<open>\<^verbatim>\<open>a or b\<close>: the first operand when it is true, the second otherwise.\<close>

definition py_or :: "py \<Rightarrow> py \<Rightarrow> py" where
  "py_or a b = (if truthy a then a else b)"

text \<open>\<^verbatim>\<open>d.get(k)\<close> and \<^verbatim>\<open>d.get(k, default)\<close>.\<close>

definition dict_get_default :: "pydict \<Rightarrow> string \<Rightarrow> py \<Rightarrow> py" where
  "dict_get_default d k dflt = (case map_of d k of None \<Rightarrow> dflt | Some v \<Rightarrow> v)"

definition dict_get :: "pydict \<Rightarrow> string \<Rightarrow> py" where
  "dict_get d k = dict_get_default d k PNone"

text \<open>\<^verbatim>\<open>d[k] = v\<close>: a new key goes last, an old key keeps its place.\<close>

fun dict_set :: "string \<Rightarrow> py \<Rightarrow> pydict \<Rightarrow> pydict" where
  "dict_set k v [] = [(k, v)]"
| "dict_set k v (p # ps) = (if fst p = k then (k, v) # ps else p # dict_set k v ps)"

section \<open>Strings\<close>

text \<open>
  \<^verbatim>\<open>str.isspace\<close> on U+0000 to U+00FF: the ASCII white space, the four
  separators U+001C to U+001F, NEL and the no-break space.
\<close>

definition isspace :: "char \<Rightarrow> bool" where
  "isspace c = ((of_char c :: nat) \<in> {9, 10, 11, 12, 13, 28, 29, 30, 31, 32, 133, 160})"

definition strip :: "string \<Rightarrow> string" where
  "strip s = rev (dropWhile isspace (rev (dropWhile isspace s)))"

text \<open>\<^verbatim>\<open>s.split()\<close>: the maximal runs of characters that are not white space.\<close>

fun split_from :: "string \<Rightarrow> string \<Rightarrow> string list" where
  "split_from w [] = (if w = [] then [] else [rev w])"
| "split_from w (c # cs) =
     (if isspace c then (if w = [] then split_from [] cs else rev w # split_from [] cs)
      else split_from (c # w) cs)"

definition split :: "string \<Rightarrow> string list" where
  "split s = split_from [] s"

text \<open>\<^verbatim>\<open>sep.join(parts)\<close>.\<close>

fun join :: "string \<Rightarrow> string list \<Rightarrow> string" where
  "join sep [] = []"
| "join sep [x] = x"
| "join sep (x # y # ys) = x @ sep @ join sep (y # ys)"

text \<open>
  \<^verbatim>\<open>str.lower\<close> on U+0000 to U+00FF: A to Z, and the capital letters of Latin-1
  (U+00C0 to U+00DE without the multiplication sign), move up by 32.
\<close>

definition lower_char :: "char \<Rightarrow> char" where
  "lower_char c =
     (let n = (of_char c :: nat)
      in if (65 \<le> n \<and> n \<le> 90) \<or> (192 \<le> n \<and> n \<le> 222 \<and> n \<noteq> 215) then char_of (n + 32) else c)"

definition lower :: "string \<Rightarrow> string" where
  "lower s = map lower_char s"

definition startswith :: "string \<Rightarrow> string \<Rightarrow> bool" where
  "startswith s p = (take (length p) s = p)"

text \<open>\<^verbatim>\<open>p in s\<close> for strings: \<open>p\<close> is a prefix of some suffix of \<open>s\<close>.\<close>

fun contains :: "string \<Rightarrow> string \<Rightarrow> bool" where
  "contains [] p = (p = [])"
| "contains (c # cs) p = (startswith (c # cs) p \<or> contains cs p)"

text \<open>
  \<^verbatim>\<open>s.find(c)\<close> and \<^verbatim>\<open>s.rfind(c)\<close> for one character: the first and the last
  index of \<open>c\<close>, and \<open>None\<close> for Python's \<open>-1\<close>.
\<close>

definition find_char :: "string \<Rightarrow> char \<Rightarrow> nat option" where
  "find_char s c = (if c \<in> set s then Some (length (takeWhile (\<lambda>x. x \<noteq> c) s)) else None)"

definition rfind_char :: "string \<Rightarrow> char \<Rightarrow> nat option" where
  "rfind_char s c =
     (if c \<in> set s then Some (length s - 1 - length (takeWhile (\<lambda>x. x \<noteq> c) (rev s))) else None)"

text \<open>\<^verbatim>\<open>s[i:j]\<close> for indices that are not negative.\<close>

definition slice :: "string \<Rightarrow> nat \<Rightarrow> nat \<Rightarrow> string" where
  "slice s i j = take (j - i) (drop i s)"

section \<open>Integers from text\<close>

definition is_digit :: "char \<Rightarrow> bool" where
  "is_digit c = (48 \<le> (of_char c :: nat) \<and> (of_char c :: nat) \<le> 57)"

definition digit_value :: "char \<Rightarrow> int" where
  "digit_value c = int (of_char c) - 48"

text \<open>
  The digits of an \<^verbatim>\<open>int\<close> literal: at least one digit, and single underscores
  between digits only. The flag says that the character before was a digit.
\<close>

fun int_digits :: "bool \<Rightarrow> int \<Rightarrow> string \<Rightarrow> int option" where
  "int_digits prev acc [] = (if prev then Some acc else None)"
| "int_digits prev acc (c # cs) =
     (if is_digit c then int_digits True (10 * acc + digit_value c) cs
      else if c = CHR ''_'' \<and> prev then int_digits False acc cs
      else None)"

text \<open>
  \<^verbatim>\<open>int(s)\<close> for a string, \<open>None\<close> where Python raises ValueError: white space
  around the literal is dropped, then comes an optional sign and the digits. The white
  space \<^verbatim>\<open>int\<close> accepts is that of \<^verbatim>\<open>str.isspace\<close> without the four
  separators U+001C to U+001F.
  (CPython's configurable limit on the number of digits is not part of the model.)
\<close>

definition int_space :: "char \<Rightarrow> bool" where
  "int_space c = ((of_char c :: nat) \<in> {9, 10, 11, 12, 13, 32, 133, 160})"

definition int_of_str :: "string \<Rightarrow> int option" where
  "int_of_str s =
     (case rev (dropWhile int_space (rev (dropWhile int_space s))) of
        [] \<Rightarrow> None
      | c # r \<Rightarrow>
          if c = CHR ''-'' then map_option uminus (int_digits False 0 r)
          else if c = CHR ''+'' then int_digits False 0 r
          else int_digits False 0 (c # r))"

section \<open>Floating point\<close>

text \<open>
  The script divides two integers and rounds the quotient to four decimals. Both are
  correctly rounded operations on IEEE doubles, so they are computed here exactly, on
  integers. \<open>bit_length\<close> is \<^verbatim>\<open>int.bit_length\<close> on positive integers.
\<close>

function bit_length :: "int \<Rightarrow> int" where
  "bit_length n = (if n \<le> 0 then 0 else 1 + bit_length (n div 2))"
  by pat_completeness auto
termination
  by (relation "measure nat") auto

declare bit_length.simps [simp del]

text \<open>\<open>n / d\<close> rounded to the nearest integer, a tie to the even one (\<open>0 < d\<close>).\<close>

definition round_half_even :: "int \<Rightarrow> int \<Rightarrow> int" where
  "round_half_even n d =
     (let q = n div d; r = n mod d
      in if 2 * r < d then q else if d < 2 * r then q + 1 else if even q then q else q + 1)"

text \<open>\<open>n / (d * 2 ^ s)\<close> rounded in the same way, for an exponent of either sign.\<close>

definition scaled_round :: "int \<Rightarrow> int \<Rightarrow> int \<Rightarrow> int" where
  "scaled_round n d s =
     (if 0 \<le> s then round_half_even n (d * 2 ^ nat s) else round_half_even (n * 2 ^ nat (- s)) d)"

text \<open>The exponent \<open>e\<close> with \<open>2 ^ e \<le> n / d < 2 ^ (e + 1)\<close>, for positive \<open>n\<close> and \<open>d\<close>.\<close>

definition floor_log2 :: "int \<Rightarrow> int \<Rightarrow> int" where
  "floor_log2 n d =
     (let e = bit_length n - bit_length d
      in if (if 0 \<le> e then d * 2 ^ nat e \<le> n else d \<le> n * 2 ^ nat (- e)) then e else e - 1)"

function trim_mantissa :: "int \<Rightarrow> int \<Rightarrow> pyfloat" where
  "trim_mantissa m e =
     (if m = 0 then Finite 0 0
      else if even m then trim_mantissa (m div 2) (e + 1)
      else Finite m e)"
  by pat_completeness auto
termination
  by (relation "measure (\<lambda>(m, e). nat \<bar>m\<bar>)") auto

declare trim_mantissa.simps [simp del]

text \<open>
  The double nearest to \<open>n / d\<close> (\<open>0 < d\<close>), a tie to the even mantissa: 53 bits
  of mantissa, exponents from \<open>-1022\<close> (below it the spacing stays \<open>2 ^ -1074\<close>) to
  \<open>1023\<close>. \<open>None\<close> when the rounded value is beyond the largest double.
\<close>

definition nearest_double :: "int \<Rightarrow> int \<Rightarrow> pyfloat option" where
  "nearest_double n d =
     (if n = 0 then Some (Finite 0 0)
      else let a = \<bar>n\<bar>;
               e = max (floor_log2 a d) (- 1022);
               m = scaled_round a d (e - 52)
           in if 1023 < e \<or> (e = 1023 \<and> 2 ^ 53 \<le> m) then None
              else Some (trim_mantissa (if n < 0 then - m else m) (e - 52)))"

text \<open>
  \<^verbatim>\<open>a / b\<close> on integers: the correctly rounded quotient, \<open>None\<close> where Python
  raises (ZeroDivisionError, or OverflowError for a quotient too large for a float).
\<close>

definition truediv :: "int \<Rightarrow> int \<Rightarrow> pyfloat option" where
  "truediv a b =
     (if b = 0 then None
      else if 0 < b then nearest_double a b
      else nearest_double (- a) (- b))"

text \<open>
  \<^verbatim>\<open>round(x, 4)\<close>: the decimal with four places nearest to the exact value of
  \<open>x\<close> (a tie to the even digit), and then the double nearest to that decimal.
  Infinities and NaN are returned as they are.
\<close>

definition round4 :: "pyfloat \<Rightarrow> pyfloat option" where
  "round4 x =
     (case x of
        Finite m e \<Rightarrow> nearest_double (scaled_round (m * 10000) 1 (- e)) 10000
      | _ \<Rightarrow> Some x)"

text \<open>
  The float a decimal literal denotes: \<open>m * 10 ^ e\<close> rounded to the nearest double,
  and an infinity beyond the largest double.
\<close>

definition float_of_decimal :: "int \<Rightarrow> int \<Rightarrow> pyfloat" where
  "float_of_decimal m e =
     (case (if 0 \<le> e then nearest_double (m * 10 ^ nat e) 1 else nearest_double m (10 ^ nat (- e))) of
        Some x \<Rightarrow> x
      | None \<Rightarrow> if m < 0 then NegInf else PosInf)"

text \<open>\<^verbatim>\<open>int(x)\<close> for a float: towards zero; \<open>None\<close> for an infinity or NaN.\<close>

definition int_of_float :: "pyfloat \<Rightarrow> int option" where
  "int_of_float x =
     (case x of
        Finite m e \<Rightarrow>
          Some (if 0 \<le> e then m * 2 ^ nat e
                else if 0 \<le> m then m div 2 ^ nat (- e)
                else - ((- m) div 2 ^ nat (- e)))
      | _ \<Rightarrow> None)"

text \<open>\<^verbatim>\<open>int(v)\<close> for any value, \<open>None\<close> where Python raises.\<close>

fun py_int :: "py \<Rightarrow> int option" where
  "py_int PNone = None"
| "py_int (PBool b) = Some (if b then 1 else 0)"
| "py_int (PInt n) = Some n"
| "py_int (PFloat x) = int_of_float x"
| "py_int (PStr s) = int_of_str s"
| "py_int (PList xs) = None"
| "py_int (PDict d) = None"

section \<open>The libraries\<close>

text \<open>
  Four library functions decide what the script computes and are not part of it. They
  are parameters of the model, and every theorem holds for each choice of them:
  \<^item> \<open>json_loads\<close> is \<^verbatim>\<open>json.loads\<close>, with \<open>None\<close> where it raises;
  \<^item> \<open>nfkd\<close> is \<^verbatim>\<open>unicodedata.normalize("NFKD", s)\<close>;
  \<^item> \<open>combining\<close> says whether \<^verbatim>\<open>unicodedata.combining(ch)\<close> is not zero;
  \<^item> \<open>select_cells\<close> is what BeautifulSoup finds in a page: for each element that
    \<^verbatim>\<open>.divTable .divTableRow\<close> selects, in document order, the stripped texts of
    the elements that \<^verbatim>\<open>.divTableCell\<close> selects in it.
\<close>

record pylib =
  json_loads :: "string \<Rightarrow> py option"
  nfkd :: "string \<Rightarrow> string"
  combining :: "char \<Rightarrow> bool"
  select_cells :: "string \<Rightarrow> string list list"

subsection \<open>A decoder for JSON text\<close>

text \<open>
  For running the model on concrete bodies, \<open>loads\<close> decodes JSON text the way
  \<^verbatim>\<open>json.loads\<close> does with its default settings: white space is blank, tab, line
  feed and carriage return; a number without fraction and exponent is an \<^verbatim>\<open>int\<close>,
  any other a \<^verbatim>\<open>float\<close>; \<^verbatim>\<open>NaN\<close>, \<^verbatim>\<open>Infinity\<close> and
  \<^verbatim>\<open>-Infinity\<close> are accepted; a control character inside a string is refused; of
  two members with one key the later value stays; text after the value is refused. An
  escape \<^verbatim>\<open>\uXXXX\<close> beyond U+00FF has no string in the model and is refused here.
\<close>

definition json_space :: "char \<Rightarrow> bool" where
  "json_space c = ((of_char c :: nat) \<in> {32, 9, 10, 13})"

definition skip_ws :: "string \<Rightarrow> string" where
  "skip_ws s = dropWhile json_space s"

definition hex_value :: "char \<Rightarrow> nat option" where
  "hex_value c =
     (let n = (of_char c :: nat)
      in if 48 \<le> n \<and> n \<le> 57 then Some (n - 48)
         else if 65 \<le> n \<and> n \<le> 70 then Some (n - 55)
         else if 97 \<le> n \<and> n \<le> 102 then Some (n - 87)
         else None)"

text \<open>The character a one-letter escape stands for.\<close>

definition escape_char :: "char \<Rightarrow> char option" where
  "escape_char c =
     (if c = CHR 0x22 \<or> c = CHR 0x5C \<or> c = CHR ''/'' then Some c
      else if c = CHR ''b'' then Some (CHR 0x08)
      else if c = CHR ''f'' then Some (CHR 0x0C)
      else if c = CHR ''n'' then Some (CHR 0x0A)
      else if c = CHR ''r'' then Some (CHR 0x0D)
      else if c = CHR ''t'' then Some (CHR 0x09)
      else None)"

text \<open>
  The rest of a string literal after its opening quote: the decoded characters (kept in
  reverse in the accumulator) and the text after the closing quote.
\<close>

fun parse_string :: "string \<Rightarrow> string \<Rightarrow> (string \<times> string) option" where
  "parse_string acc [] = None"
| "parse_string acc [c] = (if c = CHR 0x22 then Some (rev acc, []) else None)"
| "parse_string acc (c # d # r) =
     (if c = CHR 0x22 then Some (rev acc, d # r)
      else if (of_char c :: nat) < 32 then None
      else if c = CHR 0x5C then
        (if d = CHR ''u'' then
           (case map hex_value (take 4 r) of
              [Some h3, Some h2, Some h1, Some h0] \<Rightarrow>
                if h3 = 0 \<and> h2 = 0 then parse_string (char_of (16 * h1 + h0) # acc) (drop 4 r)
                else None
            | _ \<Rightarrow> None)
         else (case escape_char d of
                 Some x \<Rightarrow> parse_string (x # acc) r
               | None \<Rightarrow> None))
      else parse_string (c # acc) (d # r))"

text \<open>The value of a run of digits, read after the digits \<open>acc\<close>.\<close>

definition digits_value :: "int \<Rightarrow> string \<Rightarrow> int" where
  "digits_value acc ds = foldl (\<lambda>a c. 10 * a + digit_value c) acc ds"

text \<open>
  A number at the head of the text, as the decoder's pattern
  \<^verbatim>\<open>(-?(?:0|[1-9]\d*))(\.\d+)?([eE][-+]?\d+)?\<close> matches it, and the text after it.
\<close>

definition parse_number :: "string \<Rightarrow> (py \<times> string) option" where
  "parse_number s =
     (let neg = startswith s ''-'';
          s1 = (if neg then tl s else s);
          ip = (if startswith s1 ''0'' then ''0'' else takeWhile is_digit s1);
          s2 = drop (length ip) s1;
          fp = (if startswith s2 ''.'' then takeWhile is_digit (tl s2) else []);
          s3 = (if fp = [] then s2 else drop (length fp) (tl s2));
          lower_e = (startswith s3 ''e'' \<or> startswith s3 ''E'');
          s4 = (if lower_e then tl s3 else s3);
          eneg = startswith s4 ''-'';
          s5 = (if eneg \<or> startswith s4 ''+'' then tl s4 else s4);
          ep = (if lower_e then takeWhile is_digit s5 else []);
          s6 = (if ep = [] then s3 else drop (length ep) s5);
          mant = digits_value 0 (ip @ fp);
          ex = (if eneg then - digits_value 0 ep else digits_value 0 ep) - int (length fp)
      in if ip = [] then None
         else if fp = [] \<and> ep = [] then Some (PInt (if neg then - mant else mant), s6)
         else Some (PFloat (float_of_decimal (if neg then - mant else mant) ex), s6))"

text \<open>
  One value at the head of the text, and the text after it. The first argument bounds
  the depth of the recursion; \<open>loads\<close> starts it above twice the length of the text,
  which is enough, since of two nested calls one has read a character.
\<close>

fun parse_value :: "nat \<Rightarrow> string \<Rightarrow> (py \<times> string) option"
  and parse_array :: "nat \<Rightarrow> py list \<Rightarrow> string \<Rightarrow> (py \<times> string) option"
  and parse_object :: "nat \<Rightarrow> pydict \<Rightarrow> string \<Rightarrow> (py \<times> string) option"
where
  "parse_value 0 s = None"
| "parse_value (Suc n) s =
     (case s of
        [] \<Rightarrow> None
      | c # r \<Rightarrow>
          if c = CHR 0x22 then map_option (\<lambda>(k, r'). (PStr k, r')) (parse_string [] r)
          else if c = CHR ''{'' then
            (if startswith (skip_ws r) ''}'' then Some (PDict [], tl (skip_ws r))
             else parse_object n [] (skip_ws r))
          else if c = CHR ''['' then
            (if startswith (skip_ws r) '']'' then Some (PList [], tl (skip_ws r))
             else parse_array n [] (skip_ws r))
          else if startswith s ''null'' then Some (PNone, drop 4 s)
          else if startswith s ''true'' then Some (PBool True, drop 4 s)
          else if startswith s ''false'' then Some (PBool False, drop 5 s)
          else (case parse_number s of
                  Some x \<Rightarrow> Some x
                | None \<Rightarrow>
                    if startswith s ''NaN'' then Some (PFloat NaN, drop 3 s)
                    else if startswith s ''Infinity'' then Some (PFloat PosInf, drop 8 s)
                    else if startswith s ''-Infinity'' then Some (PFloat NegInf, drop 9 s)
                    else None))"
| "parse_array 0 acc s = None"
| "parse_array (Suc n) acc s =
     (case parse_value n s of
        None \<Rightarrow> None
      | Some (v, r) \<Rightarrow>
          if startswith (skip_ws r) '']'' then Some (PList (rev (v # acc)), tl (skip_ws r))
          else if startswith (skip_ws r) '','' then parse_array n (v # acc) (skip_ws (tl (skip_ws r)))
          else None)"
| "parse_object 0 acc s = None"
| "parse_object (Suc n) acc s =
     (if startswith s [CHR 0x22] then
        (case parse_string [] (tl s) of
           None \<Rightarrow> None
         | Some (k, r1) \<Rightarrow>
             if startswith (skip_ws r1) '':'' then
               (case parse_value n (skip_ws (tl (skip_ws r1))) of
                  None \<Rightarrow> None
                | Some (v, r2) \<Rightarrow>
                    if startswith (skip_ws r2) ''}'' then Some (PDict (dict_set k v acc), tl (skip_ws r2))
                    else if startswith (skip_ws r2) '','' then
                      parse_object n (dict_set k v acc) (skip_ws (tl (skip_ws r2)))
                    else None)
             else None)
      else None)"

definition loads :: "string \<Rightarrow> py option" where
  "loads s =
     (case parse_value (2 * length s + 2) (skip_ws s) of
        None \<Rightarrow> None
      | Some (v, r) \<Rightarrow> if skip_ws r = [] then Some v else None)"

section \<open>Name normalisation and aliases\<close>

text \<open>
  \<^verbatim>\<open>_norm\<close>: trim, collapse each run of white space to one blank, decompose,
  drop the combining characters, lower the case. (For a \<^verbatim>\<open>str\<close> argument
  \<^verbatim>\<open>s or ""\<close> is \<open>s\<close>; the call sites below deal with the other values.)
\<close>

definition norm :: "pylib \<Rightarrow> string \<Rightarrow> string" where
  "norm L s =
     lower (filter (\<lambda>ch. \<not> combining L ch) (nfkd L (join '' '' (split (strip s)))))"

text \<open>
  The alias table is a dictionary display whose keys are computed by \<^verbatim>\<open>_norm\<close>; of two
  equal keys the later entry stays.
\<close>

definition ALIASES :: "pylib \<Rightarrow> string \<rightharpoonup> string" where
  "ALIASES L =
     map_of (rev
       [(norm L ''Victoria St'', ''Victoria Street''),
        (norm L ''Victoria Street'', ''Victoria Street''),
        (norm L ''Civic'', ''Civic''),
        (norm L ''Downtown'', ''Downtown''),
        (norm L ''Ronwood'', ''Ronwood''),
        (norm L ''Toka Puia'', ''Toka Puia'')])"

definition IGNORE_CARPARKS :: "string set" where
  "IGNORE_CARPARKS = {''albert street''}"

definition STOP_COLLECTING :: "pylib \<Rightarrow> string set" where
  "STOP_COLLECTING L = {norm L ''Downtown''}"

definition canonical_name :: "pylib \<Rightarrow> string \<Rightarrow> string" where
  "canonical_name L raw_name =
     (let k = norm L raw_name
      in if k \<in> IGNORE_CARPARKS then ''__IGNORE__''
         else (case ALIASES L k of Some v \<Rightarrow> v | None \<Rightarrow> strip raw_name))"

section \<open>Capacity lookup\<close>

text \<open>
  \<^verbatim>\<open>csv.DictReader\<close> yields one dictionary per row of
  \<^verbatim>\<open>capacity_lookup.csv\<close>, from column names to strings, with \<^verbatim>\<open>None\<close> for a column
  the row is too short for. A row is a map, \<open>None\<close> standing for both an absent key
  and the value \<^verbatim>\<open>None\<close>, which \<^verbatim>\<open>row.get\<close> does not tell apart. The file is the
  list of its rows, and \<open>None\<close> when it does not exist.
\<close>

type_synonym csv_row = "string \<rightharpoonup> string"

text \<open>\<^verbatim>\<open>str(v)\<close> for a string or \<^verbatim>\<open>None\<close>.\<close>

definition str_of :: "string option \<Rightarrow> string" where
  "str_of v = (case v of None \<Rightarrow> ''None'' | Some s \<Rightarrow> s)"

text \<open>
  One turn of the loop: the entry the row adds to \<^verbatim>\<open>cap\<close>, if it adds one.
  \<^verbatim>\<open>if name and total_i\<close> asks for a name that is not empty and a total that is
  neither \<^verbatim>\<open>None\<close> nor zero.
\<close>

definition capacity_entry :: "csv_row \<Rightarrow> (string \<times> int) option" where
  "capacity_entry row =
     (let name = strip (case row ''carpark'' of None \<Rightarrow> '''' | Some s \<Rightarrow> s);
          total' = row ''total_spaces'';
          total_i = int_of_str (strip (str_of total'))
      in case total_i of
           None \<Rightarrow> None
         | Some t \<Rightarrow> if name \<noteq> [] \<and> t \<noteq> 0 then Some (name, t) else None)"

fun load_rows :: "(string \<rightharpoonup> int) \<Rightarrow> csv_row list \<Rightarrow> (string \<rightharpoonup> int)" where
  "load_rows cap [] = cap"
| "load_rows cap (row # rows) =
     load_rows (case capacity_entry row of None \<Rightarrow> cap | Some (name, t) \<Rightarrow> cap(name \<mapsto> t)) rows"

definition load_capacity_lookup :: "csv_row list option \<Rightarrow> (string \<rightharpoonup> int)" where
  "load_capacity_lookup file =
     (case file of None \<Rightarrow> Map.empty | Some rows \<Rightarrow> load_rows Map.empty rows)"

section \<open>Exceptions\<close>

text \<open>
  The exceptions that can end a run: those of \<^verbatim>\<open>requests\<close>, the AttributeError of
  a method call on a value that has no such method, and the EmptyDataError of
  \<^verbatim>\<open>pandas.read_csv\<close>.
\<close>

datatype error = Timeout | ConnectionError | HTTPError int | AttributeError | EmptyDataError

section \<open>Data frames and CSV files\<close>

text \<open>
  A frame has its column names, in order, and its rows. \<^verbatim>\<open>pd.DataFrame\<close> of a list
  of dictionaries takes the keys as columns in the order in which they first appear, so
  the frame of an empty list has no column. \<^verbatim>\<open>pd.concat\<close> of two frames has the
  columns of the first, then the new ones of the second, and the rows of the first
  followed by the rows of the second.

  A CSV file is the frame written to it. For a frame without columns
  \<^verbatim>\<open>to_csv(index=False)\<close> writes a line break and nothing else, and
  \<^verbatim>\<open>read_csv\<close> raises EmptyDataError ("No columns to parse from file") on such a
  file. How pandas prints a value and which type it reads back from the text are not
  part of the model: a cell keeps the value the script computed.
\<close>

record frame =
  frame_columns :: "string list"
  frame_rows :: "pydict list"

fun add_columns :: "string list \<Rightarrow> string list \<Rightarrow> string list" where
  "add_columns cols [] = cols"
| "add_columns cols (c # cs) = add_columns (if c \<in> set cols then cols else cols @ [c]) cs"

definition DataFrame :: "pydict list \<Rightarrow> frame" where
  "DataFrame data =
     \<lparr>frame_columns = add_columns [] (concat (map (map fst) data)), frame_rows = data\<rparr>"

definition pd_concat :: "frame \<Rightarrow> frame \<Rightarrow> frame" where
  "pd_concat a b =
     \<lparr>frame_columns = add_columns (frame_columns a) (frame_columns b),
      frame_rows = frame_rows a @ frame_rows b\<rparr>"

definition read_csv :: "frame \<Rightarrow> error + frame" where
  "read_csv file = (if frame_columns file = [] then Inl EmptyDataError else Inr file)"

section \<open>Fetching\<close>

record response =
  status_code :: int
  body_text :: string
  content_type_header :: "string option"

text \<open>
  What one run meets outside: the outcome of \<^verbatim>\<open>requests.get\<close> (an exception or a
  response), the clock, and the capacity file. What it leaves behind: the files under
  \<^verbatim>\<open>data/\<close>, the raw dumps by the second in their name.
\<close>

record env =
  http_get :: "error + response"
  now_utc :: string
  epoch :: int
  capacity_csv :: "csv_row list option"

record world =
  raw_files :: "(int \<times> string) list"
  OUTPUT_LATEST :: "frame option"
  OUTPUT_HISTORY :: "frame option"

text \<open>
  \<^verbatim>\<open>Response.raise_for_status\<close> raises for the client and server error codes, 400 to
  599, and for no other status.
\<close>

definition raise_for_status :: "response \<Rightarrow> error option" where
  "raise_for_status resp =
     (if 400 \<le> status_code resp \<and> status_code resp < 600 then Some (HTTPError (status_code resp))
      else None)"

text \<open>Writing a file: the new content replaces what the name held.\<close>

fun write_file :: "int \<Rightarrow> string \<Rightarrow> (int \<times> string) list \<Rightarrow> (int \<times> string) list" where
  "write_file k v [] = [(k, v)]"
| "write_file k v (p # ps) = (if fst p = k then (k, v) # ps else p # write_file k v ps)"

definition fetch_raw :: "env \<Rightarrow> world \<Rightarrow> (error + string \<times> string) \<times> world" where
  "fetch_raw E w =
     (case http_get E of
        Inl e \<Rightarrow> (Inl e, w)
      | Inr resp \<Rightarrow>
          (case raise_for_status resp of
             Some e \<Rightarrow> (Inl e, w)
           | None \<Rightarrow>
               (Inr (body_text resp,
                     (case content_type_header resp of None \<Rightarrow> '''' | Some ct \<Rightarrow> ct)),
                w\<lparr>raw_files := write_file (epoch E) (body_text resp) (raw_files w)\<rparr>)))"

section \<open>Parsing\<close>

text \<open>
  The slice from the first \<open>a\<close> to the last \<open>b\<close>, decoded, when \<open>a\<close> occurs and the
  last \<open>b\<close> comes after it; \<open>None\<close> when there is no such slice or decoding it fails.
\<close>

definition embedded :: "pylib \<Rightarrow> string \<Rightarrow> char \<Rightarrow> char \<Rightarrow> py option" where
  "embedded L txt a b =
     (case (find_char txt a, rfind_char txt b) of
        (Some i, Some j) \<Rightarrow> if i < j then json_loads L (slice txt i (j + 1)) else None
      | _ \<Rightarrow> None)"

definition try_parse_json :: "pylib \<Rightarrow> string \<Rightarrow> py" where
  "try_parse_json L resp_text =
     (let txt = strip resp_text
      in if startswith txt ''{'' \<or> startswith txt ''['' then
           (case json_loads L txt of Some v \<Rightarrow> v | None \<Rightarrow> PNone)
         else
           (case embedded L txt CHR ''{'' CHR ''}'' of
              Some v \<Rightarrow> v
            | None \<Rightarrow>
                (case embedded L txt CHR ''['' CHR '']'' of
                   Some v \<Rightarrow> v
                 | None \<Rightarrow> PNone)))"

text \<open>
  One turn of the loop of \<^verbatim>\<open>parse_html_table\<close>: the row the cells give, if they give
  one. The pattern keeps the decimal digits, which below U+0100 are 0 to 9.
\<close>

definition html_row :: "pylib \<Rightarrow> string list \<Rightarrow> pydict option" where
  "html_row L cells =
     (if length cells < 3 then None
      else let carpark = cells ! 0; option = cells ! 1; available = cells ! 2
           in if norm L carpark \<in> IGNORE_CARPARKS then None
              else Some [(''carpark'', PStr carpark),
                         (''parking_option'', PStr option),
                         (''available_spaces'',
                            (case int_of_str (filter is_digit available) of
                               Some n \<Rightarrow> PInt n
                             | None \<Rightarrow> PNone))])"

definition parse_html_table :: "pylib \<Rightarrow> string \<Rightarrow> pydict list" where
  "parse_html_table L resp_text = List.map_filter (html_row L) (select_cells L resp_text)"

section \<open>The run\<close>

subsection \<open>Extraction\<close>

text \<open>
  The row a JSON record gives (lines 147 to 151 and 156 to 160 of the script).
  \<^verbatim>\<open>rec.get\<close> exists for a dictionary only: any other element raises AttributeError.
\<close>

definition json_record :: "py \<Rightarrow> error + pydict" where
  "json_record rec =
     (case rec of
        PDict d \<Rightarrow>
          Inr [(''carpark'', py_or (py_or (dict_get d ''carParkName'') (dict_get d ''name'')) (PStr '''')),
               (''parking_option'', py_or (py_or (dict_get d ''category'') (dict_get d ''parkingOption'')) (PStr '''')),
               (''available_spaces'', py_or (py_or (dict_get d ''availableSpaces'') (dict_get d ''available'')) PNone)]
      | _ \<Rightarrow> Inl AttributeError)"

fun json_records :: "py list \<Rightarrow> error + pydict list" where
  "json_records [] = Inr []"
| "json_records (rec # recs) =
     (case json_record rec of
        Inl e \<Rightarrow> Inl e
      | Inr row \<Rightarrow> (case json_records recs of Inl e \<Rightarrow> Inl e | Inr rows \<Rightarrow> Inr (row # rows)))"

definition CONTAINER_KEYS :: "string list" where
  "CONTAINER_KEYS = [''data'', ''results'', ''items'', ''carParks'', ''CarParks'', ''Result'']"

text \<open>The list under the first of the keys that is in the dictionary with a list as its value.\<close>

fun first_list :: "pydict \<Rightarrow> string list \<Rightarrow> py list option" where
  "first_list d [] = None"
| "first_list d (k # ks) =
     (case map_of d k of Some (PList xs) \<Rightarrow> Some xs | _ \<Rightarrow> first_list d ks)"

definition json_rows :: "py \<Rightarrow> error + pydict list" where
  "json_rows data =
     (case data of
        PList recs \<Rightarrow> json_records recs
      | PDict d \<Rightarrow> (case first_list d CONTAINER_KEYS of Some recs \<Rightarrow> json_records recs | None \<Rightarrow> Inr [])
      | _ \<Rightarrow> Inr [])"

text \<open>Lines 138 to 164: the rows of a response, from its JSON or else from its table.\<close>

definition extract_rows :: "pylib \<Rightarrow> string \<Rightarrow> string \<Rightarrow> error + pydict list" where
  "extract_rows L body content_type =
     (let data0 = (if contains (lower content_type) ''application/json''
                   then try_parse_json L body else PNone);
          data = (if data0 = PNone then try_parse_json L body else data0)
      in case json_rows data of
           Inl e \<Rightarrow> Inl e
         | Inr rows \<Rightarrow> Inr (if rows = [] then parse_html_table L body else rows))"

subsection \<open>Enrichment\<close>

text \<open>
  \<^verbatim>\<open>canonical_name\<close> and \<^verbatim>\<open>_norm\<close> use their argument as
  \<^verbatim>\<open>(s or "").strip()\<close>: a string is taken as it is, a false value of another type
  gives the empty string, and any other value has no \<^verbatim>\<open>strip\<close> (AttributeError).
\<close>

definition str_or_empty :: "py \<Rightarrow> error + string" where
  "str_or_empty v =
     (case v of PStr s \<Rightarrow> Inr s | _ \<Rightarrow> if truthy v then Inl AttributeError else Inr '''')"

text \<open>
  Lines 180 to 185. \<^verbatim>\<open>total\<close> comes from the capacity table, so it is an integer or
  \<^verbatim>\<open>None\<close>; \<^verbatim>\<open>available\<close> is any value. Every exception inside the
  \<^verbatim>\<open>try\<close> leaves \<^verbatim>\<open>None\<close>.
\<close>

definition occupancy :: "int option \<Rightarrow> py \<Rightarrow> pyfloat option" where
  "occupancy total' available =
     (case total' of
        None \<Rightarrow> None
      | Some t \<Rightarrow>
          if t = 0 \<or> available = PNone \<or> available = PStr '''' then None
          else (case py_int available of
                  None \<Rightarrow> None
                | Some a \<Rightarrow> (case truediv (t - a) t of None \<Rightarrow> None | Some q \<Rightarrow> round4 q)))"

text \<open>One turn of the loop of lines 170 to 196: the enriched row, if the row is kept.\<close>

definition enrich_row :: "pylib \<Rightarrow> (string \<rightharpoonup> int) \<Rightarrow> string \<Rightarrow> pydict \<Rightarrow> error + pydict option" where
  "enrich_row L capacity ts_utc r =
     (case str_or_empty (dict_get_default r ''carpark'' (PStr '''')) of
        Inl e \<Rightarrow> Inl e
      | Inr raw_name \<Rightarrow>
          let canon = canonical_name L raw_name
          in if canon = ''__IGNORE__'' then Inr None
             else if norm L canon \<in> STOP_COLLECTING L then Inr None
             else let available = dict_get r ''available_spaces'';
                      total' = capacity canon
                  in Inr (Some
                       [(''timestamp_utc'', PStr ts_utc),
                        (''carpark'', PStr canon),
                        (''available_spaces'', available),
                        (''total_spaces'', (case total' of None \<Rightarrow> PNone | Some t \<Rightarrow> PInt t)),
                        (''occupancy'', (case occupancy total' available of None \<Rightarrow> PNone | Some x \<Rightarrow> PFloat x)),
                        (''status'', PStr ''''),
                        (''parking_option'', dict_get_default r ''parking_option'' (PStr '''')),
                        (''source_last_updated'', PStr '''')]))"

fun enrich :: "pylib \<Rightarrow> (string \<rightharpoonup> int) \<Rightarrow> string \<Rightarrow> pydict list \<Rightarrow> error + pydict list" where
  "enrich L capacity ts_utc [] = Inr []"
| "enrich L capacity ts_utc (r # rs) =
     (case enrich_row L capacity ts_utc r of
        Inl e \<Rightarrow> Inl e
      | Inr kept \<Rightarrow>
          (case enrich L capacity ts_utc rs of
             Inl e \<Rightarrow> Inl e
           | Inr norm_rows \<Rightarrow> Inr ((case kept of None \<Rightarrow> [] | Some row \<Rightarrow> [row]) @ norm_rows)))"

subsection \<open>Persistence\<close>

text \<open>
  Lines 198 to 206: the batch replaces the latest snapshot; then the history is read, if
  there is one, and written back with the batch after it. An exception of
  \<^verbatim>\<open>read_csv\<close> ends the run with the snapshot already written.
\<close>

definition persist :: "pydict list \<Rightarrow> world \<Rightarrow> (error + unit) \<times> world" where
  "persist norm_rows w =
     (let df = DataFrame norm_rows;
          w1 = w\<lparr>OUTPUT_LATEST := Some df\<rparr>
      in case OUTPUT_HISTORY w1 of
           None \<Rightarrow> (Inr (), w1\<lparr>OUTPUT_HISTORY := Some df\<rparr>)
         | Some file \<Rightarrow>
             (case read_csv file of
                Inl e \<Rightarrow> (Inl e, w1)
              | Inr old \<Rightarrow> (Inr (), w1\<lparr>OUTPUT_HISTORY := Some (pd_concat old df)\<rparr>)))"

subsection \<open>The whole run\<close>

text \<open>
  The outcome of a run (\<open>Inl\<close> the exception that ends it) and the files it leaves.
\<close>

definition run :: "pylib \<Rightarrow> env \<Rightarrow> world \<Rightarrow> (error + unit) \<times> world" where
  "run L E w =
     (case fetch_raw E w of
        (Inl e, w1) \<Rightarrow> (Inl e, w1)
      | (Inr (body, content_type), w1) \<Rightarrow>
          (case extract_rows L body content_type of
             Inl e \<Rightarrow> (Inl e, w1)
           | Inr rows \<Rightarrow>
               (case enrich L (load_capacity_lookup (capacity_csv E)) (now_utc E) rows of
                  Inl e \<Rightarrow> (Inl e, w1)
                | Inr norm_rows \<Rightarrow> persist norm_rows w1)))"

subsection \<open>The libraries on ASCII text\<close>

text \<open>
  On ASCII text the decomposition changes nothing and no character is combining. With
  \<open>loads\<close> for the decoder and a page without table rows, this instance runs the model
  on concrete ASCII input.
\<close>

definition ascii_lib :: pylib where
  "ascii_lib = \<lparr>json_loads = loads, nfkd = (\<lambda>s. s), combining = (\<lambda>ch. False), select_cells = (\<lambda>page. [])\<rparr>"

section \<open>Terms of the specification\<close>

text \<open>
  The rows the specification says the capacity lookup skips: a missing or empty name, a
  total that fails integer coercion, or a total that coerces to zero.
\<close>

definition malformed :: "csv_row \<Rightarrow> bool" where
  "malformed row =
     (strip (case row ''carpark'' of None \<Rightarrow> '''' | Some s \<Rightarrow> s) = []
      \<or> int_of_str (strip (str_of (row ''total_spaces''))) = None
      \<or> int_of_str (strip (str_of (row ''total_spaces''))) = Some 0)"

text \<open>A raw row whose name normalises into the ignore set.\<close>

definition raw_name_ignored :: "pylib \<Rightarrow> pydict \<Rightarrow> bool" where
  "raw_name_ignored L r =
     (case dict_get_default r ''carpark'' (PStr '''') of
        PStr s \<Rightarrow> norm L s \<in> IGNORE_CARPARKS
      | _ \<Rightarrow> False)"

section \<open>Example inputs\<close>

text \<open>A run at a fixed time, with a capacity file that knows one carpark.\<close>

definition example_env :: "error + response \<Rightarrow> env" where
  "example_env r =
     \<lparr>http_get = r, now_utc = ''2024-05-01 10:00:00'', epoch = 1714557600,
      capacity_csv = Some [[''carpark'' \<mapsto> ''Civic'', ''total_spaces'' \<mapsto> ''100'']]\<rparr>"

definition response_of :: "int \<Rightarrow> string \<Rightarrow> response" where
  "response_of code page =
     \<lparr>status_code = code, body_text = page, content_type_header = Some ''text/html''\<rparr>"

definition example_body :: string where
  \<open>example_body = ''[{"name": "Albert Street", "available": 3}, {"carParkName": "Downtown", "availableSpaces": 4}, {"name": " civic ", "category": "Short Stay", "available": 10}]''\<close>

text \<open>The rows extracted from the example body.\<close>

definition example_rows :: "pydict list" where
  "example_rows =
     [[(''carpark'', PStr ''Albert Street''), (''parking_option'', PStr ''''), (''available_spaces'', PInt 3)],
      [(''carpark'', PStr ''Downtown''), (''parking_option'', PStr ''''), (''available_spaces'', PInt 4)],
      [(''carpark'', PStr '' civic ''), (''parking_option'', PStr ''Short Stay''), (''available_spaces'', PInt 10)]]"

definition COLUMNS :: "string list" where
  "COLUMNS = [''timestamp_utc'', ''carpark'', ''available_spaces'', ''total_spaces'',
              ''occupancy'', ''status'', ''parking_option'', ''source_last_updated'']"

definition civic_row :: pydict where
  "civic_row =
     [(''timestamp_utc'', PStr ''2024-05-01 10:00:00''),
      (''carpark'', PStr ''Civic''),
      (''available_spaces'', PInt 10),
      (''total_spaces'', PInt 100),
      (''occupancy'', PFloat (float_of_decimal 9 (- 1))),
      (''status'', PStr ''''),
      (''parking_option'', PStr ''Short Stay''),
      (''source_last_updated'', PStr '''')]"

definition ronwood_row :: pydict where
  "ronwood_row =
     [(''timestamp_utc'', PStr ''2024-05-01 09:00:00''),
      (''carpark'', PStr ''Ronwood''),
      (''available_spaces'', PInt 0),
      (''total_spaces'', PNone),
      (''occupancy'', PNone),
      (''status'', PStr ''''),
      (''parking_option'', PStr ''Casual''),
      (''source_last_updated'', PStr '''')]"

text \<open>The files before the first run, and after an earlier run that kept one row.\<close>

definition fresh_world :: world where
  "fresh_world = \<lparr>raw_files = [], OUTPUT_LATEST = None, OUTPUT_HISTORY = None\<rparr>"

definition example_world :: world where
  "example_world =
     \<lparr>raw_files = [],
      OUTPUT_LATEST = Some \<lparr>frame_columns = COLUMNS, frame_rows = [ronwood_row]\<rparr>,
      OUTPUT_HISTORY = Some \<lparr>frame_columns = COLUMNS, frame_rows = [ronwood_row]\<rparr>\<rparr>"

text \<open>
  The files a first run leaves when it keeps no row: both frames have no column.
\<close>

definition after_empty_batch :: world where
  "after_empty_batch =
     \<lparr>raw_files = [(1714557600, ''[]'')],
      OUTPUT_LATEST = Some \<lparr>frame_columns = [], frame_rows = []\<rparr>,
      OUTPUT_HISTORY = Some \<lparr>frame_columns = [], frame_rows = []\<rparr>\<rparr>"

section \<open>Properties\<close>

subsection \<open>Trimming\<close>

lemma strip_no_leading_space: "dropWhile isspace (strip s) = strip s"
proof (cases "strip s")
  case Nil
  then show ?thesis by simp
next
  case (Cons c cs)
  define a where "a = dropWhile isspace s"
  have eq: "rev (dropWhile isspace (rev a)) = c # cs"
    using Cons by (simp add: strip_def a_def)
  then have "a \<noteq> []" by auto
  have "\<exists>zs. a = (c # cs) @ zs"
    by (metis eq append_take_drop_id dropWhile_eq_drop rev_append rev_swap)
  then have "hd a = c" by auto
  moreover have "\<not> isspace (hd a)"
    using \<open>a \<noteq> []\<close> unfolding a_def by (metis hd_dropWhile)
  ultimately show ?thesis using Cons by simp
qed

lemma strip_idem: "strip (strip s) = strip s"
proof -
  have "strip (strip s) = rev (dropWhile isspace (rev (strip s)))"
    by (simp add: strip_def[of "strip s"] strip_no_leading_space)
  also have "\<dots> = rev (dropWhile isspace (dropWhile isspace (rev (dropWhile isspace s))))"
    by (simp add: strip_def)
  also have "\<dots> = strip s"
    by (simp add: strip_def)
  finally show ?thesis .
qed

lemma norm_strip: "norm L (strip s) = norm L s"
  by (simp add: norm_def strip_idem)

subsection \<open>The order of the JSON strategies\<close>

lemma embedded_slice:
  "embedded L txt a b = Some v \<longleftrightarrow>
     (\<exists>i j. find_char txt a = Some i \<and> rfind_char txt b = Some j \<and> i < j
            \<and> json_loads L (slice txt i (j + 1)) = Some v)"
  by (auto simp: embedded_def split: option.splits)

text \<open>
  C1, as the code has it. When the trimmed body starts with a brace or a bracket, the
  whole body is decoded and that outcome is final: the decoded value, or no value when
  decoding fails, with no further attempt. Only a body that starts with neither is
  searched: first the slice from the first opening brace to the last closing brace, then,
  when there is no such slice or it does not decode, the slice from the first opening
  bracket to the last closing bracket; no value when both fail.
\<close>

theorem try_parse_json_order:
  "(startswith (strip body) ''{'' \<or> startswith (strip body) ''['' \<longrightarrow>
      try_parse_json L body = (case json_loads L (strip body) of Some v \<Rightarrow> v | None \<Rightarrow> PNone))
   \<and> (\<not> (startswith (strip body) ''{'' \<or> startswith (strip body) ''['') \<longrightarrow>
        (\<forall>v. embedded L (strip body) CHR ''{'' CHR ''}'' = Some v \<longrightarrow> try_parse_json L body = v)
      \<and> (embedded L (strip body) CHR ''{'' CHR ''}'' = None \<longrightarrow>
            (\<forall>v. embedded L (strip body) CHR ''['' CHR '']'' = Some v \<longrightarrow> try_parse_json L body = v)
          \<and> (embedded L (strip body) CHR ''['' CHR '']'' = None \<longrightarrow> try_parse_json L body = PNone)))"
  by (simp add: try_parse_json_def Let_def)

text \<open>
  A body that is a JSON array, decoded whole; and a script call around two objects,
  where the slice between the braces does not decode and the slice between the brackets
  does.
\<close>

theorem try_parse_json_order_witness:
  \<open>startswith (strip ''[{"name": "Civic"}]'') ''[''
   \<and> try_parse_json ascii_lib ''[{"name": "Civic"}]'' = PList [PDict [(''name'', PStr ''Civic'')]]
   \<and> \<not> (startswith (strip ''rows([{"name": "Civic"}, {"name": "Ronwood"}]);'') ''{''
        \<or> startswith (strip ''rows([{"name": "Civic"}, {"name": "Ronwood"}]);'') ''['')
   \<and> embedded ascii_lib (strip ''rows([{"name": "Civic"}, {"name": "Ronwood"}]);'') CHR ''{'' CHR ''}'' = None
   \<and> try_parse_json ascii_lib ''rows([{"name": "Civic"}, {"name": "Ronwood"}]);''
       = PList [PDict [(''name'', PStr ''Civic'')], PDict [(''name'', PStr ''Ronwood'')]]\<close>
proof -
  let ?a = \<open>''[{"name": "Civic"}]''\<close>
  let ?b = \<open>''rows([{"name": "Civic"}, {"name": "Ronwood"}]);''\<close>
  have a1: "startswith (strip ?a) ''[''" by code_simp
  have a2: "json_loads ascii_lib (strip ?a) = Some (PList [PDict [(''name'', PStr ''Civic'')]])"
    by code_simp
  have b1: "\<not> (startswith (strip ?b) ''{'' \<or> startswith (strip ?b) ''['')" by code_simp
  have b2: "embedded ascii_lib (strip ?b) CHR ''{'' CHR ''}'' = None" by code_simp
  have b3: "embedded ascii_lib (strip ?b) CHR ''['' CHR '']''
      = Some (PList [PDict [(''name'', PStr ''Civic'')], PDict [(''name'', PStr ''Ronwood'')]])"
    by code_simp
  from try_parse_json_order [of ?a ascii_lib] a1 a2
  have ra: "try_parse_json ascii_lib ?a = PList [PDict [(''name'', PStr ''Civic'')]]"
    by simp
  from try_parse_json_order [of ?b ascii_lib] b1 b2 b3
  have rb: "try_parse_json ascii_lib ?b
      = PList [PDict [(''name'', PStr ''Civic'')], PDict [(''name'', PStr ''Ronwood'')]]"
    by blast
  show ?thesis
    by (intro conjI) (rule a1 ra b1 b2 rb)+
qed

text \<open>
  C1 as stated fails for a body that starts with a brace and has text after the object:
  decoding the whole body fails, the slice from the first brace to the last decodes to an
  object, and still there is no JSON value.
\<close>

theorem try_parse_json_counterexample:
  \<open>startswith (strip ''{"data": []} trailing'') ''{''
   \<and> json_loads ascii_lib (strip ''{"data": []} trailing'') = None
   \<and> embedded ascii_lib (strip ''{"data": []} trailing'') CHR ''{'' CHR ''}'' = Some (PDict [(''data'', PList [])])
   \<and> try_parse_json ascii_lib ''{"data": []} trailing'' = PNone\<close>
  by code_simp

subsection \<open>The fields of a JSON record\<close>

text \<open>
  C2, as the code has it. For a record that is an object, building the row never raises.
  The name is the value of \<^verbatim>\<open>carParkName\<close> when that is true in Python's sense
  (present and not null, empty, zero or false), else the value of \<^verbatim>\<open>name\<close> when that
  is true, else the empty string; the parking option likewise from \<^verbatim>\<open>category\<close> and
  \<^verbatim>\<open>parkingOption\<close>. The count is the value of \<^verbatim>\<open>availableSpaces\<close> when that is
  true; it is the value of \<^verbatim>\<open>available\<close> when \<^verbatim>\<open>availableSpaces\<close> is missing or
  null and \<^verbatim>\<open>available\<close> is true; it is null when both are missing or null.
\<close>

theorem json_record_fields:
  "\<exists>c p n. json_record (PDict d) = Inr [(''carpark'', c), (''parking_option'', p), (''available_spaces'', n)]
     \<and> c = (if truthy (dict_get d ''carParkName'') then dict_get d ''carParkName''
            else if truthy (dict_get d ''name'') then dict_get d ''name'' else PStr '''')
     \<and> p = (if truthy (dict_get d ''category'') then dict_get d ''category''
            else if truthy (dict_get d ''parkingOption'') then dict_get d ''parkingOption'' else PStr '''')
     \<and> (truthy (dict_get d ''availableSpaces'') \<longrightarrow> n = dict_get d ''availableSpaces'')
     \<and> (dict_get d ''availableSpaces'' = PNone \<and> truthy (dict_get d ''available'') \<longrightarrow> n = dict_get d ''available'')
     \<and> (dict_get d ''availableSpaces'' = PNone \<and> dict_get d ''available'' = PNone \<longrightarrow> n = PNone)"
  by (simp add: json_record_def py_or_def)

text \<open>The record of the specification's scenario: the second alternates are used.\<close>

theorem json_record_fields_witness:
  "json_record (PDict [(''name'', PStr ''Civic''), (''available'', PInt 10)])
     = Inr [(''carpark'', PStr ''Civic''), (''parking_option'', PStr ''''), (''available_spaces'', PInt 10)]
   \<and> dict_get [(''name'', PStr ''Civic''), (''available'', PInt 10)] ''availableSpaces'' = PNone
   \<and> truthy (dict_get [(''name'', PStr ''Civic''), (''available'', PInt 10)] ''available'')"
proof -
  let ?d = "[(''name'', PStr ''Civic''), (''available'', PInt 10)]"
  have g: "dict_get ?d ''carParkName'' = PNone" "dict_get ?d ''name'' = PStr ''Civic''"
    "dict_get ?d ''category'' = PNone" "dict_get ?d ''parkingOption'' = PNone"
    "dict_get ?d ''availableSpaces'' = PNone" "dict_get ?d ''available'' = PInt 10"
    by code_simp+
  from json_record_fields [of ?d] show ?thesis
    unfolding g by auto
qed

text \<open>
  C2 as stated fails for a record whose first name field is present and empty: the name
  extracted is the value of the second field, not of the first present one.
\<close>

theorem json_record_counterexample:
  "map_of [(''carParkName'', PStr ''''), (''name'', PStr ''Civic'')] ''carParkName'' = Some (PStr '''')
   \<and> json_record (PDict [(''carParkName'', PStr ''''), (''name'', PStr ''Civic'')])
     = Inr [(''carpark'', PStr ''Civic''), (''parking_option'', PStr ''''), (''available_spaces'', PNone)]"
  by code_simp

subsection \<open>Canonical names\<close>

text \<open>
  C3, as the code has it. Two raw names with the same normalised key get the same
  canonical name when the key is in the ignore set or in the alias table. When it is in
  neither, each name passes through as its own trimmed text, so the two canonical names
  can differ as strings; their normalised keys are still equal.
\<close>

theorem canonical_name_same_key:
  assumes "norm L n1 = norm L n2"
  shows "(norm L n1 \<in> IGNORE_CARPARKS \<union> dom (ALIASES L) \<longrightarrow>
           canonical_name L n1 = canonical_name L n2)
       \<and> (norm L n1 \<notin> IGNORE_CARPARKS \<union> dom (ALIASES L) \<longrightarrow>
           canonical_name L n1 = strip n1 \<and> canonical_name L n2 = strip n2)
       \<and> norm L (canonical_name L n1) = norm L (canonical_name L n2)"
proof -
  have same: "norm L n1 \<in> IGNORE_CARPARKS \<union> dom (ALIASES L) \<Longrightarrow>
      canonical_name L n1 = canonical_name L n2"
    using assms by (auto simp: canonical_name_def Let_def)
  have through: "norm L n1 \<notin> IGNORE_CARPARKS \<union> dom (ALIASES L) \<Longrightarrow>
      canonical_name L n1 = strip n1 \<and> canonical_name L n2 = strip n2"
    using assms by (auto simp: canonical_name_def Let_def domIff split: option.splits)
  have "norm L (canonical_name L n1) = norm L (canonical_name L n2)"
  proof (cases "norm L n1 \<in> IGNORE_CARPARKS \<union> dom (ALIASES L)")
    case True
    then show ?thesis using same by simp
  next
    case False
    then show ?thesis using through assms by (simp add: norm_strip)
  qed
  then show ?thesis using same through by blast
qed

text \<open>
  Two spellings of the specification's example have one key, which is in the alias
  table, and one canonical name.
\<close>

theorem canonical_name_same_key_witness:
  "norm ascii_lib ''Victoria St'' = norm ascii_lib ''VICTORIA  ST''
   \<and> norm ascii_lib ''Victoria St'' \<in> IGNORE_CARPARKS \<union> dom (ALIASES ascii_lib)
   \<and> canonical_name ascii_lib ''Victoria St'' = ''Victoria Street''
   \<and> canonical_name ascii_lib ''VICTORIA  ST'' = ''Victoria Street''"
proof -
  have k: "norm ascii_lib ''Victoria St'' = norm ascii_lib ''VICTORIA  ST''"
    by code_simp
  have a: "ALIASES ascii_lib (norm ascii_lib ''Victoria St'') = Some ''Victoria Street''"
    by code_simp
  have c: "canonical_name ascii_lib ''Victoria St'' = ''Victoria Street''"
    by code_simp
  from a have d: "norm ascii_lib ''Victoria St'' \<in> IGNORE_CARPARKS \<union> dom (ALIASES ascii_lib)"
    by (simp add: domI)
  from canonical_name_same_key [OF k] d
  have e: "canonical_name ascii_lib ''Victoria St'' = canonical_name ascii_lib ''VICTORIA  ST''"
    by blast
  have r: "canonical_name ascii_lib ''VICTORIA  ST'' = ''Victoria Street''"
    by (rule trans [OF e [symmetric] c])
  show ?thesis
    by (intro conjI) (rule k d c r)+
qed

text \<open>
  C3 as stated fails for a name the tables do not know: \<^verbatim>\<open>Foo\<close> and \<^verbatim>\<open>foo\<close> have
  one key and each keeps its own spelling.
\<close>

theorem canonical_name_counterexample:
  "norm ascii_lib ''Foo'' = norm ascii_lib ''foo''
   \<and> canonical_name ascii_lib ''Foo'' \<noteq> canonical_name ascii_lib ''foo''"
  by code_simp

subsection \<open>Occupancy\<close>

text \<open>
  C5, as the code has it. The occupancy is present exactly when the total is present and
  not zero, the available count is neither null nor the empty string and coerces to an
  integer, and the quotient is in the range of a float; it is then the quotient
  \<open>(total - available) / total\<close> rounded to four decimals. A total of 100 with 40
  available gives 0.6; a total of zero or no total gives no occupancy.
\<close>

theorem occupancy_present_iff:
  "(occupancy total' available = Some x \<longleftrightarrow>
      (\<exists>t a q. total' = Some t \<and> t \<noteq> 0 \<and> available \<noteq> PNone \<and> available \<noteq> PStr ''''
         \<and> py_int available = Some a \<and> truediv (t - a) t = Some q \<and> round4 q = Some x))
   \<and> occupancy (Some 100) (PInt 40) = Some (float_of_decimal 6 (- 1))
   \<and> occupancy (Some 0) available = None
   \<and> occupancy None available = None"
proof -
  have iff: "occupancy total' available = Some x \<longleftrightarrow>
      (\<exists>t a q. total' = Some t \<and> t \<noteq> 0 \<and> available \<noteq> PNone \<and> available \<noteq> PStr ''''
         \<and> py_int available = Some a \<and> truediv (t - a) t = Some q \<and> round4 q = Some x)"
    by (auto simp: occupancy_def split: option.splits)
  have ex: "occupancy (Some 100) (PInt 40) = Some (float_of_decimal 6 (- 1))"
    by code_simp
  have z: "occupancy (Some 0) available = None" "occupancy None available = None"
    by (simp_all add: occupancy_def)
  show ?thesis using iff ex z by blast
qed

text \<open>The specification's scenario: 45 of 120 spaces available, occupancy 0.625.\<close>

theorem occupancy_present_iff_witness:
  "truediv (120 - 45) 120 = Some (float_of_decimal 625 (- 3))
   \<and> round4 (float_of_decimal 625 (- 3)) = Some (float_of_decimal 625 (- 3))
   \<and> occupancy (Some 120) (PInt 45) = Some (float_of_decimal 625 (- 3))"
proof -
  have q: "truediv (120 - 45) 120 = Some (float_of_decimal 625 (- 3))" by code_simp
  have r: "round4 (float_of_decimal 625 (- 3)) = Some (float_of_decimal 625 (- 3))" by code_simp
  have "occupancy (Some 120) (PInt 45) = Some (float_of_decimal 625 (- 3))"
    using occupancy_present_iff [of "Some 120" "PInt 45" "float_of_decimal 625 (- 3)"] q r
    by auto
  then show ?thesis using q r by blast
qed

text \<open>
  C5 as stated fails where the quotient has more than four decimals: with 1 of 3 spaces
  available the occupancy is 0.6667, which is not the quotient \<open>(3 - 1) / 3\<close>.
\<close>

theorem occupancy_counterexample:
  "occupancy (Some 3) (PInt 1) = Some (float_of_decimal 6667 (- 4))
   \<and> truediv (3 - 1) 3 \<noteq> Some (float_of_decimal 6667 (- 4))"
  by code_simp

subsection \<open>JSON before HTML\<close>

lemma json_records_length:
  "json_records recs = Inr rows \<Longrightarrow> length rows = length recs"
  by (induction recs arbitrary: rows) (auto split: sum.splits)

text \<open>
  A body that is a JSON array with at least one element never reaches the HTML path: the
  rows, or the exception of an element that is not an object, come from the array, for
  every page the HTML parser could make of the text.
\<close>

lemma nonempty_array_skips_html:
  assumes "startswith (strip body) ''[''"
    and "json_loads L (strip body) = Some (PList recs)"
    and "recs \<noteq> []"
  shows "extract_rows L body ct = json_records recs"
proof -
  have t: "try_parse_json L body = PList recs"
    using assms by (simp add: try_parse_json_def Let_def)
  show ?thesis
  proof (cases "json_records recs")
    case (Inl e)
    then show ?thesis using t by (simp add: extract_rows_def Let_def json_rows_def)
  next
    case (Inr rows)
    with assms(3) have "rows \<noteq> []" using json_records_length by fastforce
    then show ?thesis using t Inr by (simp add: extract_rows_def Let_def json_rows_def)
  qed
qed

text \<open>
  The empty array gives no row, so the script asks the HTML parser about the same text
  (line 163).
\<close>

lemma empty_array_asks_html:
  assumes "startswith (strip body) ''[''"
    and "json_loads L (strip body) = Some (PList [])"
  shows "extract_rows L body ct = Inr (parse_html_table L body)"
proof -
  have "try_parse_json L body = PList []"
    using assms by (simp add: try_parse_json_def Let_def)
  then show ?thesis by (simp add: extract_rows_def Let_def json_rows_def)
qed

text \<open>
  C6. For a body whose text is a valid JSON array the result of extraction, the list of
  rows or the exception of an element that is not an object, is the one derived from the
  array alone. The text of an empty array is brackets and white space, in which
  BeautifulSoup selects no element: this fact of the library is the third assumption. It
  is needed for the empty array only; a body with an element is never given to the HTML
  path, whatever table-like text it holds.
\<close>

theorem json_array_first:
  assumes "startswith (strip body) ''[''"
    and "json_loads L (strip body) = Some (PList recs)"
    and "recs = [] \<Longrightarrow> select_cells L body = []"
  shows "extract_rows L body ct = json_records recs"
proof (cases "recs = []")
  case True
  then have "parse_html_table L body = []"
    using assms(3) by (simp add: parse_html_table_def List.map_filter_def)
  then show ?thesis
    using empty_array_asks_html [of body L ct] assms(1,2) True by simp
next
  case False
  then show ?thesis
    using nonempty_array_skips_html [OF assms(1,2)] by simp
qed

text \<open>
  An array of one record, declared as HTML, whose row comes from the JSON; and the empty
  array, which gives no row.
\<close>

theorem json_array_first_witness:
  \<open>startswith (strip ''[{"name": "Civic", "available": 10}]'') ''[''
   \<and> json_loads ascii_lib (strip ''[{"name": "Civic", "available": 10}]'')
       = Some (PList [PDict [(''name'', PStr ''Civic''), (''available'', PInt 10)]])
   \<and> extract_rows ascii_lib ''[{"name": "Civic", "available": 10}]'' ''text/html''
       = Inr [[(''carpark'', PStr ''Civic''), (''parking_option'', PStr ''''), (''available_spaces'', PInt 10)]]
   \<and> startswith (strip '' [ ] '') ''[''
   \<and> json_loads ascii_lib (strip '' [ ] '') = Some (PList [])
   \<and> select_cells ascii_lib '' [ ] '' = []
   \<and> extract_rows ascii_lib '' [ ] '' ''text/html'' = Inr []\<close>
proof -
  let ?b = \<open>''[{"name": "Civic", "available": 10}]''\<close>
  have s: "startswith (strip ?b) ''[''" by code_simp
  have l: "json_loads ascii_lib (strip ?b)
      = Some (PList [PDict [(''name'', PStr ''Civic''), (''available'', PInt 10)]])"
    by code_simp
  have r: "json_records [PDict [(''name'', PStr ''Civic''), (''available'', PInt 10)]]
      = Inr [[(''carpark'', PStr ''Civic''), (''parking_option'', PStr ''''), (''available_spaces'', PInt 10)]]"
    by code_simp
  have x: "extract_rows ascii_lib ?b ''text/html''
      = Inr [[(''carpark'', PStr ''Civic''), (''parking_option'', PStr ''''), (''available_spaces'', PInt 10)]]"
    using json_array_first [OF s l, of "''text/html''"] r by simp
  have s0: "startswith (strip '' [ ] '') ''[''" by code_simp
  have l0: "json_loads ascii_lib (strip '' [ ] '') = Some (PList [])" by code_simp
  have c0: "select_cells ascii_lib '' [ ] '' = []" by (simp add: ascii_lib_def)
  have x0: "extract_rows ascii_lib '' [ ] '' ''text/html'' = Inr []"
    using json_array_first [OF s0 l0 c0, of "''text/html''"] by simp
  show ?thesis
    by (intro conjI) (rule s l x s0 l0 c0 x0)+
qed

subsection \<open>Capacity loading\<close>

lemma capacity_entry_None_iff: "capacity_entry row = None \<longleftrightarrow> malformed row"
  by (auto simp: capacity_entry_def malformed_def Let_def split: option.splits)

lemma capacity_entry_Some:
  "capacity_entry row = Some (name, t) \<longleftrightarrow>
     name = strip (case row ''carpark'' of None \<Rightarrow> '''' | Some s \<Rightarrow> s) \<and> name \<noteq> []
     \<and> int_of_str (strip (str_of (row ''total_spaces''))) = Some t \<and> t \<noteq> 0"
  by (auto simp: capacity_entry_def Let_def split: option.splits)

lemma load_rows_Some:
  "load_rows cap rows name = Some t \<Longrightarrow>
     cap name = Some t \<or> (\<exists>row\<in>set rows. capacity_entry row = Some (name, t))"
proof (induction rows arbitrary: cap)
  case Nil
  then show ?case by simp
next
  case (Cons row rows)
  from Cons.IH [OF Cons.prems [simplified]] show ?case
    by (auto split: option.splits if_splits)
qed

lemma load_rows_filter:
  "load_rows cap (filter (\<lambda>row. \<not> malformed row) rows) = load_rows cap rows"
proof (induction rows arbitrary: cap)
  case Nil
  then show ?case by simp
next
  case (Cons row rows)
  show ?case
  proof (cases "capacity_entry row")
    case None
    then have "malformed row" by (simp add: capacity_entry_None_iff)
    then show ?thesis using None by (simp add: Cons.IH)
  next
    case (Some p)
    then have "\<not> malformed row" using capacity_entry_None_iff [of row] by simp
    then show ?thesis by (simp add: Cons.IH)
  qed
qed

text \<open>
  C8, as the code has it. Loading is a total function of the file: no row makes it fail.
  Without the file the mapping is empty. The malformed rows (no name, a total that is
  not an integer, a total of zero) leave no trace: the mapping is the one of the file
  without them. Every entry of the mapping has a name that is not empty and a total
  that is not zero (it may be negative), and comes from a row that is not malformed.
\<close>

theorem load_capacity_lookup_skips:
  "load_capacity_lookup None = Map.empty
   \<and> load_capacity_lookup (Some rows) = load_capacity_lookup (Some (filter (\<lambda>row. \<not> malformed row) rows))
   \<and> (\<forall>name t. load_capacity_lookup (Some rows) name = Some t \<longrightarrow>
         name \<noteq> [] \<and> t \<noteq> 0 \<and> (\<exists>row\<in>set rows. \<not> malformed row \<and> capacity_entry row = Some (name, t)))"
proof -
  have "\<And>name t. load_capacity_lookup (Some rows) name = Some t \<Longrightarrow>
      name \<noteq> [] \<and> t \<noteq> 0 \<and> (\<exists>row\<in>set rows. \<not> malformed row \<and> capacity_entry row = Some (name, t))"
  proof -
    fix name t
    assume "load_capacity_lookup (Some rows) name = Some t"
    then have "load_rows Map.empty rows name = Some t"
      by (simp add: load_capacity_lookup_def)
    from load_rows_Some [OF this] obtain row
      where row: "row \<in> set rows" "capacity_entry row = Some (name, t)" by auto
    then have "\<not> malformed row" using capacity_entry_None_iff [of row] by simp
    moreover have "name \<noteq> [] \<and> t \<noteq> 0" using row(2) by (auto simp: capacity_entry_Some)
    ultimately show "name \<noteq> [] \<and> t \<noteq> 0 \<and> (\<exists>row\<in>set rows. \<not> malformed row \<and> capacity_entry row = Some (name, t))"
      using row by blast
  qed
  then show ?thesis
    by (simp add: load_capacity_lookup_def load_rows_filter)
qed

text \<open>
  A file of four rows: one good, one without a name, one with a total that is no
  number, one with a total of zero. Only the first leaves an entry.
\<close>

theorem load_capacity_lookup_skips_witness:
  "load_capacity_lookup
     (Some [[''carpark'' \<mapsto> ''Victoria Street'', ''total_spaces'' \<mapsto> '' 120 ''],
            [''total_spaces'' \<mapsto> ''80''],
            [''carpark'' \<mapsto> ''Civic'', ''total_spaces'' \<mapsto> ''many''],
            [''carpark'' \<mapsto> ''Ronwood'', ''total_spaces'' \<mapsto> ''0'']]) ''Victoria Street'' = Some 120
   \<and> ''Victoria Street'' \<noteq> [] \<and> (120 :: int) \<noteq> 0
   \<and> load_capacity_lookup
     (Some [[''carpark'' \<mapsto> ''Victoria Street'', ''total_spaces'' \<mapsto> '' 120 ''],
            [''total_spaces'' \<mapsto> ''80''],
            [''carpark'' \<mapsto> ''Civic'', ''total_spaces'' \<mapsto> ''many''],
            [''carpark'' \<mapsto> ''Ronwood'', ''total_spaces'' \<mapsto> ''0'']]) ''Civic'' = None"
proof -
  let ?rows = "[[''carpark'' \<mapsto> ''Victoria Street'', ''total_spaces'' \<mapsto> '' 120 ''],
            [''total_spaces'' \<mapsto> ''80''],
            [''carpark'' \<mapsto> ''Civic'', ''total_spaces'' \<mapsto> ''many''],
            [''carpark'' \<mapsto> ''Ronwood'', ''total_spaces'' \<mapsto> ''0'']] :: csv_row list"
  have v: "load_capacity_lookup (Some ?rows) ''Victoria Street'' = Some 120" by code_simp
  have c: "load_capacity_lookup (Some ?rows) ''Civic'' = None" by code_simp
  from load_capacity_lookup_skips [of ?rows] v
  have "''Victoria Street'' \<noteq> [] \<and> (120 :: int) \<noteq> 0" by blast
  then show ?thesis using v c by blast
qed

text \<open>C8 as stated fails for a negative total: the entry is kept and is not positive.\<close>

theorem load_capacity_lookup_counterexample:
  "load_capacity_lookup (Some [[''carpark'' \<mapsto> ''Civic'', ''total_spaces'' \<mapsto> ''-5'']]) ''Civic'' = Some (- 5)"
  by code_simp

subsection \<open>Failure of the fetch\<close>

lemma persist_keeps_raw_files:
  "raw_files (snd (persist norm_rows w)) = raw_files w"
  by (simp add: persist_def read_csv_def Let_def split: option.splits)

lemma persist_writes_snapshot:
  "OUTPUT_LATEST (snd (persist norm_rows w)) = Some (DataFrame norm_rows)"
  by (simp add: persist_def read_csv_def Let_def split: option.splits)

text \<open>
  After a response whose status is no error the run depends on the body and the content
  type of the response, and no more on its status.
\<close>

lemma run_after_fetch:
  assumes "http_get E = Inr resp"
    and "\<not> (400 \<le> status_code resp \<and> status_code resp < 600)"
  shows "run L E w =
     (case extract_rows L (body_text resp)
             (case content_type_header resp of None \<Rightarrow> '''' | Some ct \<Rightarrow> ct) of
        Inl e \<Rightarrow> (Inl e, w\<lparr>raw_files := write_file (epoch E) (body_text resp) (raw_files w)\<rparr>)
      | Inr rows \<Rightarrow>
          (case enrich L (load_capacity_lookup (capacity_csv E)) (now_utc E) rows of
             Inl e \<Rightarrow> (Inl e, w\<lparr>raw_files := write_file (epoch E) (body_text resp) (raw_files w)\<rparr>)
           | Inr norm_rows \<Rightarrow>
               persist norm_rows
                 (w\<lparr>raw_files := write_file (epoch E) (body_text resp) (raw_files w)\<rparr>)))"
  using assms by (auto simp: run_def fetch_raw_def raise_for_status_def)

text \<open>
  C9, as the code has it. When \<^verbatim>\<open>requests.get\<close> raises (a timeout, a connection
  error), and when the response has an error status (400 to 599), the run ends with that
  exception and leaves every file as it was: no snapshot, no history, no raw dump. A
  response with any other status, a success or not, is processed as the same response
  with status 200 is: the raw dump is written, and when extraction and enrichment give a
  batch the snapshot is written.
\<close>

theorem fetch_failure_is_fatal:
  "(\<forall>e. http_get E = Inl e \<longrightarrow> run L E w = (Inl e, w))
   \<and> (\<forall>resp. http_get E = Inr resp \<and> 400 \<le> status_code resp \<and> status_code resp < 600 \<longrightarrow>
         run L E w = (Inl (HTTPError (status_code resp)), w))
   \<and> (\<forall>resp. http_get E = Inr resp \<and> \<not> (400 \<le> status_code resp \<and> status_code resp < 600) \<longrightarrow>
         run L E w = run L (E\<lparr>http_get := Inr (resp\<lparr>status_code := 200\<rparr>)\<rparr>) w
       \<and> raw_files (snd (run L E w)) = write_file (epoch E) (body_text resp) (raw_files w)
       \<and> (\<forall>rows batch.
             extract_rows L (body_text resp)
               (case content_type_header resp of None \<Rightarrow> '''' | Some ct \<Rightarrow> ct) = Inr rows
           \<and> enrich L (load_capacity_lookup (capacity_csv E)) (now_utc E) rows = Inr batch
           \<longrightarrow> OUTPUT_LATEST (snd (run L E w)) = Some (DataFrame batch)))"
proof -
  have fail: "(\<forall>e. http_get E = Inl e \<longrightarrow> run L E w = (Inl e, w))
   \<and> (\<forall>resp. http_get E = Inr resp \<and> 400 \<le> status_code resp \<and> status_code resp < 600 \<longrightarrow>
         run L E w = (Inl (HTTPError (status_code resp)), w))"
    by (simp add: run_def fetch_raw_def raise_for_status_def)
  have go: "run L E w = run L (E\<lparr>http_get := Inr (resp\<lparr>status_code := 200\<rparr>)\<rparr>) w
       \<and> raw_files (snd (run L E w)) = write_file (epoch E) (body_text resp) (raw_files w)
       \<and> (\<forall>rows batch.
             extract_rows L (body_text resp)
               (case content_type_header resp of None \<Rightarrow> '''' | Some ct \<Rightarrow> ct) = Inr rows
           \<and> enrich L (load_capacity_lookup (capacity_csv E)) (now_utc E) rows = Inr batch
           \<longrightarrow> OUTPUT_LATEST (snd (run L E w)) = Some (DataFrame batch))"
    if g: "http_get E = Inr resp"
      and s: "\<not> (400 \<le> status_code resp \<and> status_code resp < 600)"
    for resp
  proof -
    let ?E = "E\<lparr>http_get := Inr (resp\<lparr>status_code := 200\<rparr>)\<rparr>"
    have g2: "http_get ?E = Inr (resp\<lparr>status_code := 200\<rparr>)" by simp
    have s2: "\<not> (400 \<le> status_code (resp\<lparr>status_code := 200\<rparr>)
        \<and> status_code (resp\<lparr>status_code := 200\<rparr>) < 600)" by simp
    have same: "run L E w = run L ?E w"
      unfolding run_after_fetch [OF g s] run_after_fetch [OF g2 s2]
      by (simp cong: sum.case_cong)
    have dump: "raw_files (snd (run L E w)) = write_file (epoch E) (body_text resp) (raw_files w)"
      unfolding run_after_fetch [OF g s]
      by (simp add: persist_keeps_raw_files split: sum.splits)
    have snap: "OUTPUT_LATEST (snd (run L E w)) = Some (DataFrame batch)"
      if "extract_rows L (body_text resp)
               (case content_type_header resp of None \<Rightarrow> '''' | Some ct \<Rightarrow> ct) = Inr rows"
        and "enrich L (load_capacity_lookup (capacity_csv E)) (now_utc E) rows = Inr batch"
      for rows batch
      unfolding run_after_fetch [OF g s] using that by (simp add: persist_writes_snapshot)
    from same dump snap show ?thesis by blast
  qed
  from fail go show ?thesis by blast
qed

text \<open>A timeout, a response with status 503, and a response with status 304.\<close>

theorem fetch_failure_is_fatal_witness:
  "http_get (example_env (Inl Timeout)) = Inl Timeout
   \<and> run ascii_lib (example_env (Inl Timeout)) example_world = (Inl Timeout, example_world)
   \<and> http_get (example_env (Inr (response_of 503 ''Service Unavailable''))) = Inr (response_of 503 ''Service Unavailable'')
   \<and> run ascii_lib (example_env (Inr (response_of 503 ''Service Unavailable''))) example_world
       = (Inl (HTTPError 503), example_world)
   \<and> http_get (example_env (Inr (response_of 304 ''''))) = Inr (response_of 304 '''')
   \<and> status_code (response_of 304 '''') = 304
   \<and> raw_files (snd (run ascii_lib (example_env (Inr (response_of 304 ''''))) example_world))
       = [(1714557600, '''')]"
proof -
  have a: "http_get (example_env (Inl Timeout)) = Inl Timeout"
    by (simp add: example_env_def)
  have b: "http_get (example_env (Inr (response_of 503 ''Service Unavailable''))) = Inr (response_of 503 ''Service Unavailable'')"
    by (simp add: example_env_def)
  have s: "status_code (response_of 503 ''Service Unavailable'') = 503"
    by (simp add: response_of_def)
  from fetch_failure_is_fatal [of "example_env (Inl Timeout)" ascii_lib example_world] a
  have r1: "run ascii_lib (example_env (Inl Timeout)) example_world = (Inl Timeout, example_world)"
    by blast
  from fetch_failure_is_fatal [of "example_env (Inr (response_of 503 ''Service Unavailable''))" ascii_lib example_world]
  have "http_get (example_env (Inr (response_of 503 ''Service Unavailable''))) = Inr (response_of 503 ''Service Unavailable'')
      \<and> 400 \<le> status_code (response_of 503 ''Service Unavailable'')
      \<and> status_code (response_of 503 ''Service Unavailable'') < 600 \<longrightarrow>
    run ascii_lib (example_env (Inr (response_of 503 ''Service Unavailable''))) example_world
       = (Inl (HTTPError (status_code (response_of 503 ''Service Unavailable''))), example_world)"
    by blast
  with b s
  have r2: "run ascii_lib (example_env (Inr (response_of 503 ''Service Unavailable''))) example_world
       = (Inl (HTTPError 503), example_world)"
    by simp
  let ?E = "example_env (Inr (response_of 304 ''''))"
  have c: "http_get ?E = Inr (response_of 304 '''')"
    by (simp add: example_env_def)
  have t: "status_code (response_of 304 '''') = 304"
    by (simp add: response_of_def)
  from fetch_failure_is_fatal [of ?E ascii_lib example_world]
  have "http_get ?E = Inr (response_of 304 '''')
      \<and> \<not> (400 \<le> status_code (response_of 304 '''') \<and> status_code (response_of 304 '''') < 600) \<longrightarrow>
    raw_files (snd (run ascii_lib ?E example_world))
      = write_file (epoch ?E) (body_text (response_of 304 '''')) (raw_files example_world)"
    by blast
  with c t
  have "raw_files (snd (run ascii_lib ?E example_world))
      = write_file (epoch ?E) (body_text (response_of 304 '''')) (raw_files example_world)"
    by simp
  then have r3: "raw_files (snd (run ascii_lib ?E example_world)) = [(1714557600, '''')]"
    by (simp add: example_env_def response_of_def example_world_def)
  show ?thesis by (intro conjI) (rule a r1 b r2 c t r3)+
qed

text \<open>
  C9 as stated fails for a status that is neither a success nor an error, such as 304:
  the run goes on with the empty body, ends normally, and writes the raw dump and the
  snapshot.
\<close>

theorem fetch_failure_counterexample:
  "http_get (example_env (Inr (response_of 304 ''''))) = Inr (response_of 304 '''')
   \<and> run ascii_lib (example_env (Inr (response_of 304 ''''))) example_world
       = (Inr (), \<lparr>raw_files = [(1714557600, '''')],
                   OUTPUT_LATEST = Some \<lparr>frame_columns = [], frame_rows = []\<rparr>,
                   OUTPUT_HISTORY = Some \<lparr>frame_columns = COLUMNS, frame_rows = [ronwood_row]\<rparr>\<rparr>)"
  by code_simp

subsection \<open>What a run persists\<close>

lemma persist_files:
  assumes "persist norm_rows w = (r, w')"
  shows "OUTPUT_LATEST w' = Some (DataFrame norm_rows)
       \<and> (OUTPUT_HISTORY w = None \<longrightarrow> r = Inr () \<and> OUTPUT_HISTORY w' = Some (DataFrame norm_rows))
       \<and> (\<forall>old. OUTPUT_HISTORY w = Some old \<and> frame_columns old = [] \<longrightarrow>
             r = Inl EmptyDataError \<and> OUTPUT_HISTORY w' = Some old)
       \<and> (\<forall>old. OUTPUT_HISTORY w = Some old \<and> frame_columns old \<noteq> [] \<longrightarrow>
             r = Inr () \<and> OUTPUT_HISTORY w' = Some (pd_concat old (DataFrame norm_rows)))"
  using assms
  by (auto simp: persist_def read_csv_def Let_def split: option.splits if_splits)

lemma run_reaches_persist:
  assumes "http_get E = Inr resp" and "raise_for_status resp = None"
    and "extract_rows L (body_text resp)
           (case content_type_header resp of None \<Rightarrow> '''' | Some ct \<Rightarrow> ct) = Inr rows"
    and "enrich L (load_capacity_lookup (capacity_csv E)) (now_utc E) rows = Inr batch"
  shows "run L E w
       = persist batch (w\<lparr>raw_files := write_file (epoch E) (body_text resp) (raw_files w)\<rparr>)"
  using assms by (simp add: run_def fetch_raw_def)

lemma run_without_batch:
  assumes "run L E w = (r, w')"
    and "\<forall>resp rows batch.
           \<not> (http_get E = Inr resp \<and> raise_for_status resp = None
              \<and> extract_rows L (body_text resp)
                   (case content_type_header resp of None \<Rightarrow> '''' | Some ct \<Rightarrow> ct) = Inr rows
              \<and> enrich L (load_capacity_lookup (capacity_csv E)) (now_utc E) rows = Inr batch)"
  shows "OUTPUT_LATEST w' = OUTPUT_LATEST w \<and> OUTPUT_HISTORY w' = OUTPUT_HISTORY w"
proof (cases "http_get E")
  case (Inl e)
  then show ?thesis using assms(1) by (auto simp: run_def fetch_raw_def)
next
  case (Inr resp)
  show ?thesis
  proof (cases "raise_for_status resp")
    case (Some e)
    then show ?thesis using assms(1) Inr by (auto simp: run_def fetch_raw_def)
  next
    case None
    let ?ct = "case content_type_header resp of None \<Rightarrow> '''' | Some ct \<Rightarrow> ct"
    show ?thesis
    proof (cases "extract_rows L (body_text resp) ?ct")
      case (Inl e)
      then show ?thesis using assms(1) Inr None by (auto simp: run_def fetch_raw_def)
    next
      case rows: (Inr rows)
      show ?thesis
      proof (cases "enrich L (load_capacity_lookup (capacity_csv E)) (now_utc E) rows")
        case (Inl e)
        then show ?thesis using assms(1) Inr None rows by (auto simp: run_def fetch_raw_def)
      next
        case batch: (Inr batch)
        with assms(2) Inr None rows show ?thesis by blast
      qed
    qed
  qed
qed

lemma enrich_row_kept:
  assumes "enrich_row L cap ts r = Inr (Some row)"
  shows "\<exists>c. map_of row ''carpark'' = Some (PStr c) \<and> c \<noteq> ''__IGNORE__''
           \<and> norm L c \<notin> STOP_COLLECTING L"
  using assms
  by (auto simp: enrich_row_def Let_def split: sum.splits if_splits)

lemma enrich_kept:
  "enrich L cap ts rows = Inr norm_rows \<Longrightarrow>
     \<forall>row\<in>set norm_rows. \<exists>c. map_of row ''carpark'' = Some (PStr c) \<and> c \<noteq> ''__IGNORE__''
        \<and> norm L c \<notin> STOP_COLLECTING L"
proof (induction rows arbitrary: norm_rows)
  case Nil
  then show ?case by simp
next
  case (Cons r rs)
  from Cons.prems obtain kept rest
    where k: "enrich_row L cap ts r = Inr kept"
      and r: "enrich L cap ts rs = Inr rest"
      and n: "norm_rows = (case kept of None \<Rightarrow> [] | Some row \<Rightarrow> [row]) @ rest"
    by (auto split: sum.splits)
  from Cons.IH [OF r] enrich_row_kept k n show ?case
    by (cases kept) auto
qed

lemma enrich_row_ignored:
  "raw_name_ignored L r \<Longrightarrow> enrich_row L cap ts r = Inr None"
  by (auto simp: raw_name_ignored_def enrich_row_def str_or_empty_def canonical_name_def Let_def
      split: py.splits)

lemma enrich_without_ignored:
  "enrich L cap ts rows = Inr norm_rows \<Longrightarrow>
     enrich L cap ts (filter (\<lambda>r. \<not> raw_name_ignored L r) rows) = Inr norm_rows"
proof (induction rows arbitrary: norm_rows)
  case Nil
  then show ?case by simp
next
  case (Cons r rs)
  from Cons.prems obtain kept rest
    where k: "enrich_row L cap ts r = Inr kept"
      and r: "enrich L cap ts rs = Inr rest"
      and n: "norm_rows = (case kept of None \<Rightarrow> [] | Some row \<Rightarrow> [row]) @ rest"
    by (auto split: sum.splits)
  show ?case
  proof (cases "raw_name_ignored L r")
    case True
    then have "kept = None" using k enrich_row_ignored [of L r cap ts] by simp
    then show ?thesis using True Cons.IH [OF r] n by simp
  next
    case False
    then show ?thesis using k Cons.IH [OF r] n by simp
  qed
qed

lemma example_run:
  "run ascii_lib (example_env (Inr (response_of 200 example_body))) example_world
     = (Inr (), \<lparr>raw_files = [(1714557600, example_body)],
                 OUTPUT_LATEST = Some \<lparr>frame_columns = COLUMNS, frame_rows = [civic_row]\<rparr>,
                 OUTPUT_HISTORY = Some \<lparr>frame_columns = COLUMNS, frame_rows = [ronwood_row, civic_row]\<rparr>\<rparr>)"
  by code_simp

text \<open>
  C4. Whatever the body and the path that extracted its rows: when the fetch succeeds and
  extraction and enrichment give a batch, the snapshot the run leaves is the frame of that
  batch, and the history is as before, or that frame, or the old history with that frame
  after it. Every row of the batch has a carpark that is a string other than the sentinel
  and whose normalised key is not in the stop-collecting set. The batch is the one the
  same run makes from the extracted rows without those whose raw name normalises into
  the ignore set: such a row leaves nothing in the batch. When the run gets no batch, it
  leaves the snapshot and the history as they were.
\<close>

theorem persisted_rows_filtered:
  assumes "run L E w = (r, w')"
  shows "(\<forall>resp rows batch.
            http_get E = Inr resp \<and> raise_for_status resp = None
          \<and> extract_rows L (body_text resp)
                (case content_type_header resp of None \<Rightarrow> '''' | Some ct \<Rightarrow> ct) = Inr rows
          \<and> enrich L (load_capacity_lookup (capacity_csv E)) (now_utc E) rows = Inr batch
          \<longrightarrow>
            OUTPUT_LATEST w' = Some (DataFrame batch)
          \<and> (OUTPUT_HISTORY w' = OUTPUT_HISTORY w
             \<or> OUTPUT_HISTORY w' = Some (DataFrame batch)
             \<or> (\<exists>old. OUTPUT_HISTORY w = Some old
                   \<and> OUTPUT_HISTORY w' = Some (pd_concat old (DataFrame batch))))
          \<and> (\<forall>row\<in>set batch. \<exists>c. map_of row ''carpark'' = Some (PStr c) \<and> c \<noteq> ''__IGNORE__''
                \<and> norm L c \<notin> STOP_COLLECTING L)
          \<and> enrich L (load_capacity_lookup (capacity_csv E)) (now_utc E)
                (filter (\<lambda>r. \<not> raw_name_ignored L r) rows) = Inr batch)
       \<and> ((\<forall>resp rows batch.
              \<not> (http_get E = Inr resp \<and> raise_for_status resp = None
                 \<and> extract_rows L (body_text resp)
                      (case content_type_header resp of None \<Rightarrow> '''' | Some ct \<Rightarrow> ct) = Inr rows
                 \<and> enrich L (load_capacity_lookup (capacity_csv E)) (now_utc E) rows = Inr batch))
          \<longrightarrow> OUTPUT_LATEST w' = OUTPUT_LATEST w \<and> OUTPUT_HISTORY w' = OUTPUT_HISTORY w)"
proof -
  have batch: "OUTPUT_LATEST w' = Some (DataFrame batch)
          \<and> (OUTPUT_HISTORY w' = OUTPUT_HISTORY w
             \<or> OUTPUT_HISTORY w' = Some (DataFrame batch)
             \<or> (\<exists>old. OUTPUT_HISTORY w = Some old
                   \<and> OUTPUT_HISTORY w' = Some (pd_concat old (DataFrame batch))))
          \<and> (\<forall>row\<in>set batch. \<exists>c. map_of row ''carpark'' = Some (PStr c) \<and> c \<noteq> ''__IGNORE__''
                \<and> norm L c \<notin> STOP_COLLECTING L)
          \<and> enrich L (load_capacity_lookup (capacity_csv E)) (now_utc E)
                (filter (\<lambda>r. \<not> raw_name_ignored L r) rows) = Inr batch"
    if g: "http_get E = Inr resp" and s: "raise_for_status resp = None"
      and x: "extract_rows L (body_text resp)
                (case content_type_header resp of None \<Rightarrow> '''' | Some ct \<Rightarrow> ct) = Inr rows"
      and n: "enrich L (load_capacity_lookup (capacity_csv E)) (now_utc E) rows = Inr batch"
    for resp rows batch
  proof -
    let ?w1 = "w\<lparr>raw_files := write_file (epoch E) (body_text resp) (raw_files w)\<rparr>"
    have p: "persist batch ?w1 = (r, w')"
      using run_reaches_persist [OF g s x n, of w] assms by simp
    have h1: "OUTPUT_HISTORY ?w1 = OUTPUT_HISTORY w" by simp
    have l: "OUTPUT_LATEST w' = Some (DataFrame batch)"
      using persist_files [OF p] by blast
    have h: "OUTPUT_HISTORY w' = OUTPUT_HISTORY w
           \<or> OUTPUT_HISTORY w' = Some (DataFrame batch)
           \<or> (\<exists>old. OUTPUT_HISTORY w = Some old
                 \<and> OUTPUT_HISTORY w' = Some (pd_concat old (DataFrame batch)))"
    proof (cases "OUTPUT_HISTORY w")
      case None
      then show ?thesis using persist_files [OF p] h1 by simp
    next
      case (Some old)
      then show ?thesis using persist_files [OF p] h1 by (cases "frame_columns old = []") auto
    qed
    from l h enrich_kept [OF n] enrich_without_ignored [OF n] show ?thesis
      by blast
  qed
  from batch run_without_batch [OF assms] show ?thesis
    by blast
qed

text \<open>
  A body with a record for Albert Street (ignored), one for Downtown (not collected)
  and one for Civic: the batch and the snapshot hold the row of Civic alone.
\<close>

theorem persisted_rows_filtered_witness:
  "run ascii_lib (example_env (Inr (response_of 200 example_body))) example_world
     = (Inr (), \<lparr>raw_files = [(1714557600, example_body)],
                 OUTPUT_LATEST = Some \<lparr>frame_columns = COLUMNS, frame_rows = [civic_row]\<rparr>,
                 OUTPUT_HISTORY = Some \<lparr>frame_columns = COLUMNS, frame_rows = [ronwood_row, civic_row]\<rparr>\<rparr>)
   \<and> http_get (example_env (Inr (response_of 200 example_body))) = Inr (response_of 200 example_body)
   \<and> raise_for_status (response_of 200 example_body) = None
   \<and> extract_rows ascii_lib example_body ''text/html'' = Inr example_rows
   \<and> enrich ascii_lib (load_capacity_lookup (capacity_csv (example_env (Inr (response_of 200 example_body)))))
         ''2024-05-01 10:00:00'' example_rows = Inr [civic_row]
   \<and> DataFrame [civic_row] = \<lparr>frame_columns = COLUMNS, frame_rows = [civic_row]\<rparr>
   \<and> map_of civic_row ''carpark'' = Some (PStr ''Civic'')
   \<and> ''Civic'' \<noteq> ''__IGNORE__''
   \<and> norm ascii_lib ''Civic'' \<notin> STOP_COLLECTING ascii_lib"
proof -
  let ?E = "example_env (Inr (response_of 200 example_body))"
  have g: "http_get ?E = Inr (response_of 200 example_body)"
    by (simp add: example_env_def)
  have s: "raise_for_status (response_of 200 example_body) = None"
    by (simp add: raise_for_status_def response_of_def)
  have x0: "extract_rows ascii_lib example_body ''text/html'' = Inr example_rows"
    by code_simp
  have x: "extract_rows ascii_lib (body_text (response_of 200 example_body))
             (case content_type_header (response_of 200 example_body) of None \<Rightarrow> '''' | Some ct \<Rightarrow> ct)
           = Inr example_rows"
    using x0 by (simp add: response_of_def)
  have n0: "enrich ascii_lib (load_capacity_lookup (capacity_csv ?E)) ''2024-05-01 10:00:00'' example_rows
      = Inr [civic_row]"
    by code_simp
  have n: "enrich ascii_lib (load_capacity_lookup (capacity_csv ?E)) (now_utc ?E) example_rows = Inr [civic_row]"
    using n0 by (simp add: example_env_def)
  from persisted_rows_filtered [OF example_run] g s x n
  have i: "\<forall>row\<in>set [civic_row]. \<exists>c. map_of row ''carpark'' = Some (PStr c) \<and> c \<noteq> ''__IGNORE__''
               \<and> norm ascii_lib c \<notin> STOP_COLLECTING ascii_lib"
    by blast
  then obtain c where c: "map_of civic_row ''carpark'' = Some (PStr c)" "c \<noteq> ''__IGNORE__''"
    "norm ascii_lib c \<notin> STOP_COLLECTING ascii_lib"
    by auto
  have m: "map_of civic_row ''carpark'' = Some (PStr ''Civic'')" by (simp add: civic_row_def)
  with c have e: "c = ''Civic''" by simp
  have d: "DataFrame [civic_row] = \<lparr>frame_columns = COLUMNS, frame_rows = [civic_row]\<rparr>"
    by code_simp
  from c e have c1: "''Civic'' \<noteq> ''__IGNORE__''"
    and c2: "norm ascii_lib ''Civic'' \<notin> STOP_COLLECTING ascii_lib"
    by simp_all
  show ?thesis
    by (intro conjI) (rule example_run g s x0 n0 d m c1 c2)+
qed

subsection \<open>The history\<close>

text \<open>
  When there is no history, or one that has columns, a run that ends normally leaves the
  old rows of the history, unchanged and in their order, followed by the rows of its
  batch.
\<close>

lemma run_success:
  assumes "run L E w = (Inr (), w')"
  shows "\<exists>(resp :: response) norm_rows.
           persist norm_rows (w\<lparr>raw_files := write_file (epoch E) (body_text resp) (raw_files w)\<rparr>)
             = (Inr (), w')"
  using assms
  by (auto simp: run_def fetch_raw_def split: sum.splits option.splits prod.splits)

lemma history_appended:
  assumes "run L E w = (Inr (), w')"
  shows "\<exists>batch. OUTPUT_LATEST w' = Some (DataFrame batch)
           \<and> (OUTPUT_HISTORY w = None \<longrightarrow> OUTPUT_HISTORY w' = Some (DataFrame batch))
           \<and> (\<forall>old. OUTPUT_HISTORY w = Some old \<longrightarrow>
                 (\<exists>new. OUTPUT_HISTORY w' = Some new
                    \<and> length (frame_rows new) = length (frame_rows old) + length batch
                    \<and> take (length (frame_rows old)) (frame_rows new) = frame_rows old
                    \<and> drop (length (frame_rows old)) (frame_rows new) = batch))"
proof -
  from run_success [OF assms] obtain resp :: response and norm_rows
    where p: "persist norm_rows (w\<lparr>raw_files := write_file (epoch E) (body_text resp) (raw_files w)\<rparr>)
               = (Inr (), w')"
    by blast
  have h: "OUTPUT_HISTORY (w\<lparr>raw_files := write_file (epoch E) (body_text resp) (raw_files w)\<rparr>)
      = OUTPUT_HISTORY w" by simp
  show ?thesis
  proof (cases "OUTPUT_HISTORY w")
    case None
    then show ?thesis using persist_files [OF p] h by (intro exI [of _ norm_rows]) simp
  next
    case (Some old)
    with persist_files [OF p] h have c: "frame_columns old \<noteq> []" by auto
    with persist_files [OF p] h Some
    have "OUTPUT_HISTORY w' = Some (pd_concat old (DataFrame norm_rows))" by auto
    then show ?thesis using persist_files [OF p] Some
      by (intro exI [of _ norm_rows]) (simp add: pd_concat_def DataFrame_def)
  qed
qed

text \<open>
  C7 does not hold on the code for a history without columns, which is the file a run
  with an empty batch creates. The first run below meets no history, keeps no row, and
  leaves a snapshot and a history of no column and no row. The second run has a batch of
  one row and a history of \<open>k = 0\<close> rows: reading the history raises EmptyDataError,
  after the snapshot has been written, and the history still has no row where the claim
  has \<open>k + m = 1\<close>.
\<close>

theorem history_unreadable_after_empty_batch:
  "run ascii_lib (example_env (Inr (response_of 200 ''[]''))) fresh_world = (Inr (), after_empty_batch)
   \<and> OUTPUT_HISTORY after_empty_batch = Some \<lparr>frame_columns = [], frame_rows = []\<rparr>
   \<and> run ascii_lib (example_env (Inr (response_of 200 example_body))) after_empty_batch
       = (Inl EmptyDataError,
          \<lparr>raw_files = [(1714557600, example_body)],
           OUTPUT_LATEST = Some \<lparr>frame_columns = COLUMNS, frame_rows = [civic_row]\<rparr>,
           OUTPUT_HISTORY = Some \<lparr>frame_columns = [], frame_rows = []\<rparr>\<rparr>)"
  by code_simp

subsection \<open>Extraction and the declared content type\<close>

text \<open>
  C10. The rows extracted from a response depend on its body only: two declared content
  types give the same result, rows or exception, since the body is parsed whether or not
  the content type mentions JSON.
\<close>

theorem content_type_irrelevant:
  "extract_rows L body ct1 = extract_rows L body ct2"
  by (simp add: extract_rows_def Let_def)

end
